theory Spec2Isabelle
  imports Main
begin

section \<open>Antora support of the AsciiDoc editor extension\<close>

text \<open>
  A shallow embedding of the Antora integration layer (the module that defines
  \<open>AntoraSupportManager\<close>, \<open>getAntoraConfig\<close>, \<open>parseAntoraConfig\<close>,
  \<open>getAttributes\<close>, \<open>getContentCatalog\<close>, \<open>createPlaybook\<close>, \<open>getSrc\<close>,
  \<open>getActiveAntoraConfig\<close> and \<open>resolveAntoraResourceIds\<close>).

  The module is glue around a host editor and three libraries.  Everything the module
  receives from them is an explicit input of the model: the list of files returned by the
  workspace search, the result of reading and parsing a YAML file, the persisted settings,
  the aggregation and classification steps, and the two catalog queries.  An
  \<open>async\<close> function is modelled by the value its promise settles to: a returned value
  is \<open>Inr\<close>, a thrown exception (a rejected promise) is \<open>Inl\<close>.  Every
  \<open>console.log\<close> call is an entry of a log that the functions return with their result.
  The listener of the opt-in gate changes the state of the session between its
  \<open>await\<close>s; it is modelled with its suspension points, so that handlers of different
  documents interleave as they do in the event loop.
\<close>

subsection \<open>Paths\<close>

text \<open>
  Paths are strings; only the character \<open>/\<close> is ever inspected.  \<open>startsWith\<close> and
  \<open>slice\<close> are the JavaScript string methods used at line 80 of the module.
\<close>

definition startsWith :: "string \<Rightarrow> string \<Rightarrow> bool" where
  "startsWith s p = (take (length p) s = p)"

definition slice :: "string \<Rightarrow> nat \<Rightarrow> string" where
  "slice s n = drop n s"

text \<open>
  The module imports Node's \<open>path\<close> library, which is not part of the repository.
  The three definitions below follow the POSIX flavour of that library
  (\<open>path.posix.dirname\<close>, \<open>path.posix.normalize\<close>, \<open>path.posix.join\<close>).

  \<open>dirname\<close> scans the path from its last character down to index 1 for the last
  slash that is followed by a character other than a slash; \<open>dirname_scan p i ms\<close> is
  that loop at index \<open>i\<close> with the flag \<open>matchedSlash = ms\<close>, and returns the index
  found (the variable \<open>end\<close>), or \<open>None\<close> for \<open>end = -1\<close>.
\<close>

fun dirname_scan :: "string \<Rightarrow> nat \<Rightarrow> bool \<Rightarrow> nat option" where
  "dirname_scan p 0 ms = None"
| "dirname_scan p (Suc i) ms =
     (if p ! Suc i = CHR ''/''
      then (if \<not> ms then Some (Suc i) else dirname_scan p i ms)
      else dirname_scan p i False)"

definition posix_dirname :: "string \<Rightarrow> string" where
  "posix_dirname p =
     (if p = [] then ''.''
      else (let hasRoot = (hd p = CHR ''/'') in
            case dirname_scan p (length p - 1) True of
              None \<Rightarrow> (if hasRoot then ''/'' else ''.'')
            | Some e \<Rightarrow> (if hasRoot \<and> e = 1 then ''//'' else take e p)))"

text \<open>
  \<open>normalize\<close> works on the segments between slashes: empty segments and \<open>.\<close> are
  dropped, \<open>..\<close> removes the segment before it (and is kept only in a relative path that
  has nothing left to remove).  \<open>split_slash cur s\<close> cuts \<open>s\<close> at every slash,
  \<open>cur\<close> being the reversed segment read so far; \<open>normalize_segments\<close> keeps the
  resulting segments as a stack, last segment first.
\<close>

fun split_slash :: "string \<Rightarrow> string \<Rightarrow> string list" where
  "split_slash cur [] = [rev cur]"
| "split_slash cur (c # cs) =
     (if c = CHR ''/'' then rev cur # split_slash [] cs else split_slash (c # cur) cs)"

fun normalize_segments :: "bool \<Rightarrow> string list \<Rightarrow> string list \<Rightarrow> string list" where
  "normalize_segments allowAboveRoot res [] = rev res"
| "normalize_segments allowAboveRoot res (s # ss) =
     (if s = [] \<or> s = ''.'' then normalize_segments allowAboveRoot res ss
      else if s = ''..'' then
        (case res of
           t # ts \<Rightarrow>
             (if t = ''..''
              then normalize_segments allowAboveRoot
                     (if allowAboveRoot then ''..'' # res else res) ss
              else normalize_segments allowAboveRoot ts ss)
         | [] \<Rightarrow>
             normalize_segments allowAboveRoot (if allowAboveRoot then [''..''] else []) ss)
      else normalize_segments allowAboveRoot (s # res) ss)"

fun join_slash :: "string list \<Rightarrow> string" where
  "join_slash [] = []"
| "join_slash [s] = s"
| "join_slash (s # t # ts) = s @ CHR ''/'' # join_slash (t # ts)"

definition posix_normalize :: "string \<Rightarrow> string" where
  "posix_normalize p =
     (if p = [] then ''.''
      else (let isAbsolute = (hd p = CHR ''/'');
                trailingSeparator = (last p = CHR ''/'');
                res = join_slash (normalize_segments (\<not> isAbsolute) [] (split_slash [] p))
            in if res = []
               then (if isAbsolute then ''/'' else if trailingSeparator then ''./'' else ''.'')
               else (let res' = (if trailingSeparator then res @ ''/'' else res)
                     in if isAbsolute then CHR ''/'' # res' else res')))"

definition posix_join :: "string list \<Rightarrow> string" where
  "posix_join args =
     (let used = filter (\<lambda>a. a \<noteq> []) args
      in if used = [] then ''.'' else posix_normalize (join_slash used))"

subsection \<open>Locating the configuration file\<close>

text \<open>
  A \<open>Uri\<close> of the host has a \<open>path\<close> and an \<open>fsPath\<close>; the module reads both
  (line 71 and line 79), so the model keeps both.
\<close>

record uri =
  path :: string
  fsPath :: string

text \<open>
  The regular expression \<open>/^\/[^/]+\/pages\/.*/\<close> of line 80.  After the leading slash
  the class \<open>[^/]+\<close> can only end at the next slash, so the match is decided by the
  longest slash-free run; the trailing \<open>.*\<close> may match nothing, so whatever follows
  \<open>/pages/\<close> is accepted.
\<close>

definition match_module_pages :: "string \<Rightarrow> bool" where
  "match_module_pages s =
     (case s of
        [] \<Rightarrow> False
      | c # r \<Rightarrow>
          c = CHR ''/'' \<and> takeWhile (\<lambda>x. x \<noteq> CHR ''/'') r \<noteq> []
          \<and> startsWith (dropWhile (\<lambda>x. x \<noteq> CHR ''/'') r) ''/pages/'')"

text \<open>The condition of the \<open>if\<close> inside the loop of \<open>getAntoraConfig\<close> (lines 79-80).\<close>

definition applicable :: "uri \<Rightarrow> string \<Rightarrow> bool" where
  "applicable antoraConfig pathToAsciidocFile =
     (let modulesPath = posix_join [posix_dirname (path antoraConfig), ''modules'']
      in startsWith pathToAsciidocFile modulesPath
         \<and> match_module_pages (slice pathToAsciidocFile (length modulesPath)))"

text \<open>
  The exceptions: the module's own class \<open>AntoraDisabledError\<close>, the \<open>TypeError\<close>
  of a property read on \<open>undefined\<close> or \<open>null\<close>, and whatever a library throws
  (with its text).
\<close>

datatype exn = AntoraDisabledError | TypeError | External string

text \<open>
  The messages written with \<open>console.log\<close>, one constructor for each call site.  The
  listener on the cancellation token (line 73) never runs: nothing in the module cancels
  the token.
\<close>

datatype logmsg =
    FoundConfig string string
  | NoApplicableConfig "uri list" string
  | UnableToParse string string
  | UnableToCreateCatalog exn
  | UnableToReturnSrc exn

text \<open>
  \<open>getAntoraConfig\<close>: \<open>antoraConfigs\<close> is the list the workspace search
  \<open>findFiles('**/antora.yml', '/node_modules/', 100, token)\<close> resolved to.  The loop
  returns at the first candidate that passes the test.
\<close>

fun getAntoraConfig_loop :: "uri list \<Rightarrow> string \<Rightarrow> (logmsg list \<times> uri) option" where
  "getAntoraConfig_loop [] pathToAsciidocFile = None"
| "getAntoraConfig_loop (antoraConfig # rest) pathToAsciidocFile =
     (if applicable antoraConfig pathToAsciidocFile
      then Some ([FoundConfig (fsPath antoraConfig) pathToAsciidocFile], antoraConfig)
      else getAntoraConfig_loop rest pathToAsciidocFile)"

definition getAntoraConfig :: "uri list \<Rightarrow> uri \<Rightarrow> logmsg list \<times> uri option" where
  "getAntoraConfig antoraConfigs textDocumentUri =
     (let pathToAsciidocFile = fsPath textDocumentUri in
      case getAntoraConfig_loop antoraConfigs pathToAsciidocFile of
        Some (l, antoraConfig) \<Rightarrow> (l, Some antoraConfig)
      | None \<Rightarrow> ([NoApplicableConfig antoraConfigs pathToAsciidocFile], None))"

definition antoraConfigExists :: "uri list \<Rightarrow> uri \<Rightarrow> bool" where
  "antoraConfigExists antoraConfigs textDocumentUri =
     (snd (getAntoraConfig antoraConfigs textDocumentUri) \<noteq> None)"

subsection \<open>Values handed over by the libraries\<close>

text \<open>
  What \<open>yaml.load\<close> returns, what the catalog returns and what the persisted settings
  hold are JavaScript values of unknown shape.  Reading a property of \<open>undefined\<close> or
  \<open>null\<close> throws a \<open>TypeError\<close>; reading a property that an object does not have,
  or one of the property names used by this module on a primitive value or an array,
  gives \<open>undefined\<close>.
\<close>

datatype jsval =
    JUndefined
  | JNull
  | JBool bool
  | JNum int
  | JStr string
  | JArr "jsval list"
  | JObj "(string \<times> jsval) list"

definition own_prop :: "(string \<times> jsval) list \<Rightarrow> string \<Rightarrow> jsval" where
  "own_prop kvs k = (case map_of kvs k of None \<Rightarrow> JUndefined | Some v \<Rightarrow> v)"

fun get_prop :: "jsval \<Rightarrow> string \<Rightarrow> exn + jsval" where
  "get_prop JUndefined k = Inl TypeError"
| "get_prop JNull k = Inl TypeError"
| "get_prop (JObj kvs) k = Inr (own_prop kvs k)"
| "get_prop v k = Inr JUndefined"

text \<open>
  \<open>doc !== {}\<close> (lines 112 and 174) compares \<open>doc\<close> with an object created by the
  comparison itself.  No value is identical to a newly created object, so the comparison
  holds for every \<open>doc\<close>.
\<close>

definition differs_from_new_object :: "jsval \<Rightarrow> bool" where
  "differs_from_new_object doc = True"

text \<open>The truthiness test of \<open>if (enableAntoraSupport)\<close> at line 42.\<close>

fun truthy :: "jsval \<Rightarrow> bool" where
  "truthy JUndefined = False"
| "truthy JNull = False"
| "truthy (JBool b) = b"
| "truthy (JNum n) = (n \<noteq> 0)"
| "truthy (JStr s) = (s \<noteq> [])"
| "truthy (JArr xs) = True"
| "truthy (JObj kvs) = True"

text \<open>Sequencing of steps that may throw, and an exception thrown by a library.\<close>

definition and_then :: "exn + 'a \<Rightarrow> ('a \<Rightarrow> exn + 'b) \<Rightarrow> exn + 'b" where
  "and_then r f = (case r of Inl e \<Rightarrow> Inl e | Inr v \<Rightarrow> f v)"

definition from_library :: "string + 'a \<Rightarrow> exn + 'a" where
  "from_library r = (case r of Inl msg \<Rightarrow> Inl (External msg) | Inr v \<Rightarrow> Inr v)"

subsection \<open>The playbook, the catalog and the host\<close>

record content_source =
  url :: string
  branches :: string
  startPath :: string

record playbook =
  content_sources :: "content_source list"
  runtime :: jsval
  site :: jsval

text \<open>
  The content catalog is used through two queries only.  \<open>getByPath\<close> receives the
  fields \<open>component\<close>, \<open>version\<close> and \<open>path\<close> of its argument;
  \<open>resolveResource\<close> receives the identifier, the context object, the family and the
  list of permitted families.  Either may throw (\<open>Inl\<close>, with the text of the error).
\<close>

record content_catalog =
  getByPath :: "jsval \<Rightarrow> jsval \<Rightarrow> string \<Rightarrow> string + jsval"
  resolveResource :: "string \<Rightarrow> jsval \<Rightarrow> string \<Rightarrow> string list \<Rightarrow> string + jsval"

text \<open>
  The host at the time of a call: the files the workspace search finds, what reading and
  parsing a file by \<open>yaml.load(fs.readFileSync(p, 'utf8'))\<close> gives, the value stored in
  the workspace state under \<open>antoraSupportSetting\<close>, the value of the setting
  \<open>antora.enableAntoraSupport\<close>, the root \<open>Uri\<close> of the workspace folder of a file
  (\<open>None\<close> when \<open>getWorkspaceFolder\<close> returns \<open>undefined\<close>), the working directory
  of the process, and the two steps of the content pipeline.
\<close>

record 'agg host =
  findFiles :: "uri list"
  loadYaml :: "string \<Rightarrow> string + jsval"
  antoraSupportSetting :: jsval
  enableAntoraSupport :: jsval
  getWorkspaceFolder :: "uri \<Rightarrow> uri option"
  cwd :: string
  aggregateContent :: "playbook \<Rightarrow> string + 'agg"
  classifyContent :: "playbook \<Rightarrow> 'agg \<Rightarrow> string + content_catalog"

text \<open>
  \<open>path.posix.relative\<close>: both paths are resolved (against the working directory when
  they are not absolute) to their normalized segments; the result climbs out of what is
  left of \<open>from\<close> after the common segments and descends into what is left of \<open>to\<close>.
\<close>

definition resolve_segments :: "string \<Rightarrow> string \<Rightarrow> string list" where
  "resolve_segments wd p =
     normalize_segments False []
       (split_slash [] (if p \<noteq> [] \<and> hd p = CHR ''/'' then p else wd @ CHR ''/'' # p))"

fun drop_common :: "string list \<Rightarrow> string list \<Rightarrow> string list \<times> string list" where
  "drop_common (a # as) (b # bs) = (if a = b then drop_common as bs else (a # as, b # bs))"
| "drop_common as bs = (as, bs)"

definition posix_relative :: "string \<Rightarrow> string \<Rightarrow> string \<Rightarrow> string" where
  "posix_relative wd from to =
     (case drop_common (resolve_segments wd from) (resolve_segments wd to) of
        (up, down) \<Rightarrow> join_slash (replicate (length up) ''..'' @ down))"

subsection \<open>Parsing the configuration file\<close>

definition parseAntoraConfig :: "'agg host \<Rightarrow> uri \<Rightarrow> logmsg list \<times> (exn + jsval)" where
  "parseAntoraConfig h textDocumentUri =
     (case getAntoraConfig (findFiles h) textDocumentUri of
        (l, Some antoraConfigUri) \<Rightarrow>
          (let antoraConfigPath = fsPath antoraConfigUri in
           case loadYaml h antoraConfigPath of
             Inr v \<Rightarrow> (l, Inr v)
           | Inl err \<Rightarrow> (l @ [UnableToParse antoraConfigPath err], Inr (JObj [])))
      | (l, None) \<Rightarrow> (l, Inr (JObj [])))"

definition getAttributes :: "'agg host \<Rightarrow> uri \<Rightarrow> logmsg list \<times> (exn + jsval)" where
  "getAttributes h textDocumentUri =
     (case parseAntoraConfig h textDocumentUri of
        (l, Inl e) \<Rightarrow> (l, Inl e)
      | (l, Inr doc) \<Rightarrow>
          (if differs_from_new_object doc
           then (l, and_then (get_prop doc ''asciidoc'') (\<lambda>a. get_prop a ''attributes''))
           else (l, Inr (JObj []))))"

subsection \<open>Building the catalog\<close>

definition getActiveAntoraConfig :: "'agg host \<Rightarrow> uri \<Rightarrow> logmsg list \<times> (exn + uri option)" where
  "getActiveAntoraConfig h textDocumentUri =
     (let isEnableAntoraSupportSettingDefined = antoraSupportSetting h in
      if isEnableAntoraSupportSettingDefined = JBool True
      then (if enableAntoraSupport h = JBool True
            then (case getAntoraConfig (findFiles h) textDocumentUri of (l, r) \<Rightarrow> (l, Inr r))
            else ([], Inr None))
      else ([], Inr None))"

definition createPlaybook :: "'agg host \<Rightarrow> uri \<Rightarrow> logmsg list \<times> (exn + playbook option)" where
  "createPlaybook h textDocumentUri =
     (case getActiveAntoraConfig h textDocumentUri of
        (l, Inl e) \<Rightarrow> (l, Inl e)
      | (l, Inr None) \<Rightarrow> (l, Inr None)
      | (l, Inr (Some activeAntoraConfig)) \<Rightarrow>
          (let contentSourceRootPath = posix_dirname (fsPath activeAntoraConfig) in
           case getWorkspaceFolder h activeAntoraConfig of
             None \<Rightarrow> (l, Inl TypeError)
           | Some folder \<Rightarrow>
               (let contentSourceRepositoryRootPath = fsPath folder;
                    startPath = posix_relative (cwd h) contentSourceRepositoryRootPath
                                  contentSourceRootPath
                in (l, Inr (Some \<lparr>content_sources =
                                    [\<lparr>url = contentSourceRepositoryRootPath,
                                      branches = ''HEAD'',
                                      startPath = startPath\<rparr>],
                                  runtime = JObj [],
                                  site = JObj []\<rparr>)))))"

text \<open>
  \<open>getContentCatalog\<close> is a \<open>try\<close> block and its \<open>catch\<close> clause.
  \<open>AntoraDisabledError\<close> is a class private to the module, so the libraries cannot
  throw it: what they throw enters the model as \<open>External\<close>.
\<close>

definition getContentCatalog_try ::
  "'agg host \<Rightarrow> uri \<Rightarrow> logmsg list \<times> (exn + content_catalog option)" where
  "getContentCatalog_try h textDocumentUri =
     (case createPlaybook h textDocumentUri of
        (l, Inl e) \<Rightarrow> (l, Inl e)
      | (l, Inr None) \<Rightarrow> (l, Inr None)
      | (l, Inr (Some playbook)) \<Rightarrow>
          (l, and_then (from_library (aggregateContent h playbook))
                (\<lambda>contentAggregate.
                   and_then (from_library (classifyContent h playbook contentAggregate))
                     (\<lambda>catalog. Inr (Some catalog)))))"

definition getContentCatalog_catch ::
  "logmsg list \<Rightarrow> exn \<Rightarrow> logmsg list \<times> (exn + content_catalog option)" where
  "getContentCatalog_catch l e =
     (if e = AntoraDisabledError then (l, Inr None)
      else (l @ [UnableToCreateCatalog e], Inl e))"

definition getContentCatalog ::
  "'agg host \<Rightarrow> uri \<Rightarrow> logmsg list \<times> (exn + content_catalog option)" where
  "getContentCatalog h textDocumentUri =
     (case getContentCatalog_try h textDocumentUri of
        (l, Inl e) \<Rightarrow> getContentCatalog_catch l e
      | (l, Inr r) \<Rightarrow> (l, Inr r))"

subsection \<open>Resolving sources and resources\<close>

text \<open>The \<open>try\<close> block of \<open>getSrc\<close> (lines 176-188).\<close>

definition getSrc_try :: "content_catalog \<Rightarrow> jsval \<Rightarrow> string \<Rightarrow> exn + jsval" where
  "getSrc_try contentCatalog doc relativePath =
     and_then (get_prop doc ''name'') (\<lambda>component.
     and_then (get_prop doc ''version'') (\<lambda>version.
     and_then (from_library (getByPath contentCatalog component version relativePath)) (\<lambda>file.
     and_then (get_prop file ''src'') (\<lambda>src.
     and_then (get_prop src ''component'') (\<lambda>c.
     and_then (get_prop src ''version'') (\<lambda>v.
     and_then (get_prop src ''module'') (\<lambda>m.
     and_then (get_prop src ''family'') (\<lambda>f.
     and_then (get_prop src ''relative'') (\<lambda>r.
       Inr (JObj [(''component'', c), (''version'', v), (''module'', m),
                  (''family'', f), (''relative'', r)]))))))))))"

definition getSrc ::
  "'agg host \<Rightarrow> uri \<Rightarrow> content_catalog option \<Rightarrow> logmsg list \<times> (exn + jsval)" where
  "getSrc h textDocumentUri contentCatalog =
     (case getAntoraConfig (findFiles h) textDocumentUri of
        (l1, antoraConfig) \<Rightarrow>
     (case parseAntoraConfig h textDocumentUri of
        (l2, Inl e) \<Rightarrow> (l1 @ l2, Inl e)
      | (l2, Inr doc) \<Rightarrow>
     (case antoraConfig of
        None \<Rightarrow> (l1 @ l2, Inr (JObj []))
      | Some cfg \<Rightarrow>
          (let contentSourceRootPath = posix_dirname (fsPath cfg) in
           case contentCatalog of
             None \<Rightarrow> (l1 @ l2, Inr (JObj []))
           | Some catalog \<Rightarrow>
               (if differs_from_new_object doc
                then (case getSrc_try catalog doc
                             (posix_relative (cwd h) contentSourceRootPath (path textDocumentUri)) of
                        Inr result \<Rightarrow> (l1 @ l2, Inr result)
                      | Inl e \<Rightarrow> (l1 @ l2 @ [UnableToReturnSrc e], Inr (JObj [])))
                else (l1 @ l2, Inr (JObj [])))))))"

definition allowed_families :: "string list" where
  "allowed_families = [''attachment'', ''example'', ''image'', ''page'', ''partial'']"

definition resolveAntoraResourceIds ::
  "string \<Rightarrow> content_catalog option \<Rightarrow> jsval \<Rightarrow> string \<Rightarrow> exn + jsval" where
  "resolveAntoraResourceIds ident contentCatalog src family =
     (case contentCatalog of
        None \<Rightarrow> Inr JUndefined
      | Some catalog \<Rightarrow>
          and_then (get_prop src ''component'') (\<lambda>component.
          and_then (get_prop src ''version'') (\<lambda>version.
          and_then (get_prop src ''module'') (\<lambda>module.
          and_then (from_library
                      (resolveResource catalog ident
                         (JObj [(''component'', component), (''version'', version),
                                (''module'', module)])
                         family allowed_families)) (\<lambda>resource.
            if resource \<noteq> JUndefined
            then and_then (get_prop resource ''src'') (\<lambda>s. get_prop s ''abspath'')
            else Inr JUndefined)))))"

subsection \<open>The opt-in gate\<close>

text \<open>
  \<open>AntoraSupportManager\<close>.  A session holds the two persisted values, whether the
  listener registered with \<open>onDidOpenTextDocument\<close> is still subscribed, how many
  completion providers \<open>activate\<close> has registered, how many times the question has been
  shown, and the handlers that have been started.  An open-document event carries the
  document, the files the workspace search finds for it, and what the user answers when
  asked about it.
\<close>

datatype answer = Yes | NoThanks | Dismissed

record open_event =
  document :: uri
  found :: "uri list"
  reply :: answer

text \<open>
  The listener (lines 30-48) is an \<open>async\<close> function: it gives control back at each of
  its four \<open>await\<close>s, and other events are handled in the meantime.  A started handler
  is therefore a task that records where it is suspended: at
  \<open>await antoraConfigExists(...)\<close> (line 31), at \<open>await showInformationMessage(...)\<close>
  with the question on the screen (line 34), at \<open>await workspaceState.update(...)\<close>
  (line 39) holding the answer, at \<open>await workspaceConfiguration.update(...)\<close> (line 41)
  holding the value of \<open>enableAntoraSupport\<close>, or finished.
\<close>

datatype task =
    AwaitConfigExists open_event
  | AwaitAnswer open_event
  | AwaitStateUpdate answer
  | AwaitConfigurationUpdate jsval
  | Finished

record session =
  workspaceState :: jsval
  workspaceConfiguration :: jsval
  listening :: bool
  completionProviders :: nat
  promptsShown :: nat
  tasks :: "task list"

definition activate :: "session \<Rightarrow> session" where
  "activate s = s\<lparr>completionProviders := Suc (completionProviders s)\<rparr>"

definition construct :: "jsval \<Rightarrow> jsval \<Rightarrow> session" where
  "construct stored setting =
     (let s = \<lparr>workspaceState = stored, workspaceConfiguration = setting, listening = False,
               completionProviders = 0, promptsShown = 0, tasks = []\<rparr>;
          isEnableAntoraSupportSettingDefined = stored
      in if isEnableAntoraSupportSettingDefined = JBool True
         then (if setting = JBool True then activate s else s)
         else if isEnableAntoraSupportSettingDefined = JUndefined
         then s\<lparr>listening := True\<rparr>
         else s)"

text \<open>
  A document is opened: a subscribed listener starts a handler, which runs up to its
  first \<open>await\<close>; a disposed listener is not called.
\<close>

definition onDidOpenTextDocument :: "session \<Rightarrow> open_event \<Rightarrow> session" where
  "onDidOpenTextDocument s ev =
     (if listening s then s\<lparr>tasks := tasks s @ [AwaitConfigExists ev]\<rparr> else s)"

text \<open>
  A suspended handler continues up to its next \<open>await\<close>, or to its end.  The question
  is on the screen from the call of \<open>showInformationMessage\<close>; a value is stored when the
  awaited \<open>update\<close> has completed.  The result is the session and the task the handler
  has become.
\<close>

fun continue :: "session \<Rightarrow> task \<Rightarrow> session \<times> task" where
  "continue s (AwaitConfigExists ev) =
     (if antoraConfigExists (found ev) (document ev)
      then (s\<lparr>promptsShown := Suc (promptsShown s)\<rparr>, AwaitAnswer ev)
      else (s, Finished))"
| "continue s (AwaitAnswer ev) = (s, AwaitStateUpdate (reply ev))"
| "continue s (AwaitStateUpdate answer) =
     (let s1 = s\<lparr>workspaceState := JBool True\<rparr>;
          enableAntoraSupport =
            (case answer of
               Yes \<Rightarrow> JBool True
             | NoThanks \<Rightarrow> JBool False
             | Dismissed \<Rightarrow> JUndefined)
      in (s1, AwaitConfigurationUpdate enableAntoraSupport))"
| "continue s (AwaitConfigurationUpdate enable) =
     (let s1 = s\<lparr>workspaceConfiguration := enable\<rparr>;
          s2 = (if truthy enable then activate s1 else s1)
      in (s2\<lparr>listening := False\<rparr>, Finished))"
| "continue s Finished = (s, Finished)"

text \<open>
  What happens in a session: a document is opened, or the handler started by the
  \<open>i\<close>-th opening (counted from 0, among the openings that reached the listener)
  continues.  \<open>run\<close> performs a list of such actions in order.
\<close>

datatype action = Opened open_event | Resumed nat

definition resume :: "session \<Rightarrow> nat \<Rightarrow> session" where
  "resume s i =
     (if i < length (tasks s)
      then (case continue s (tasks s ! i) of
              (s', t) \<Rightarrow> s'\<lparr>tasks := (tasks s')[i := t]\<rparr>)
      else s)"

fun perform :: "session \<Rightarrow> action \<Rightarrow> session" where
  "perform s (Opened ev) = onDidOpenTextDocument s ev"
| "perform s (Resumed i) = resume s i"

definition run :: "session \<Rightarrow> action list \<Rightarrow> session" where
  "run s acts = foldl perform s acts"

subsection \<open>Well-formed locations\<close>

text \<open>
  The directory that holds a configuration file is given by its segments:
  \<open>abs_dir [''a'', ''b'']\<close> is \<open>/a/b\<close>, and \<open>abs_dir []\<close> is the empty prefix of a file
  in the root directory.  A segment of a location is not empty, has no slash and is
  neither \<open>.\<close> nor \<open>..\<close>.
\<close>

definition abs_dir :: "string list \<Rightarrow> string" where
  "abs_dir segs = concat (map (\<lambda>s. CHR ''/'' # s) segs)"

definition dir_segment :: "string \<Rightarrow> bool" where
  "dir_segment s = (s \<noteq> [] \<and> CHR ''/'' \<notin> set s \<and> s \<noteq> ''.'' \<and> s \<noteq> ''..'')"

subsection \<open>Sample inputs\<close>

text \<open>
  A workspace \<open>/ws\<close> with two configuration files, \<open>/ws/lib/antora.yml\<close> and
  \<open>/ws/docs/antora.yml\<close>, a page of the component \<open>docs\<close>, a document outside every
  component, a catalog that knows the page, hosts in which parsing or aggregation fails,
  and open-document events with the three possible answers.
\<close>

definition docs_config :: uri where
  "docs_config = \<lparr>path = ''/ws/docs/antora.yml'', fsPath = ''/ws/docs/antora.yml''\<rparr>"

definition other_config :: uri where
  "other_config = \<lparr>path = ''/ws/lib/antora.yml'', fsPath = ''/ws/lib/antora.yml''\<rparr>"

definition index_page :: uri where
  "index_page = \<lparr>path = ''/ws/docs/modules/ROOT/pages/index.adoc'',
                 fsPath = ''/ws/docs/modules/ROOT/pages/index.adoc''\<rparr>"

definition ws_folder :: uri where
  "ws_folder = \<lparr>path = ''/ws'', fsPath = ''/ws''\<rparr>"

definition index_src :: jsval where
  "index_src = JObj [(''component'', JStr ''docs''), (''version'', JStr ''1.0''),
                     (''module'', JStr ''ROOT''), (''family'', JStr ''page''),
                     (''relative'', JStr ''index.adoc''),
                     (''abspath'', JStr ''/ws/docs/modules/ROOT/pages/index.adoc'')]"

definition sample_catalog :: content_catalog where
  "sample_catalog =
     \<lparr>getByPath = (\<lambda>component version p.
         if component = JStr ''docs'' \<and> version = JStr ''1.0''
            \<and> p = ''modules/ROOT/pages/index.adoc''
         then Inr (JObj [(''src'', index_src)])
         else Inr JUndefined),
      resolveResource = (\<lambda>ident ctx family permitted.
         if ident = ''index.adoc'' \<and> family \<in> set permitted
         then Inr (JObj [(''src'', index_src)])
         else Inr JUndefined)\<rparr>"

definition sample_host :: "jsval \<Rightarrow> jsval \<Rightarrow> unit host" where
  "sample_host stored setting =
     \<lparr>findFiles = [other_config, docs_config],
      loadYaml = (\<lambda>p. if p = ''/ws/docs/antora.yml''
                      then Inr (JObj [(''name'', JStr ''docs''), (''version'', JStr ''1.0'')])
                      else Inl ''YAMLException''),
      antoraSupportSetting = stored,
      enableAntoraSupport = setting,
      getWorkspaceFolder = (\<lambda>u. Some ws_folder),
      cwd = ''/'',
      aggregateContent = (\<lambda>pb. Inr ()),
      classifyContent = (\<lambda>pb agg. Inr sample_catalog)\<rparr>"

definition unparsable_host :: "unit host" where
  "unparsable_host = (sample_host (JBool True) (JBool True))\<lparr>loadYaml := (\<lambda>p. Inl ''YAMLException'')\<rparr>"

definition failing_host :: "unit host" where
  "failing_host = (sample_host (JBool True) (JBool True))\<lparr>aggregateContent := (\<lambda>pb. Inl ''ENOENT'')\<rparr>"

definition readme_page :: uri where
  "readme_page = \<lparr>path = ''/ws/README.adoc'', fsPath = ''/ws/README.adoc''\<rparr>"

definition sample_playbook :: playbook where
  "sample_playbook = \<lparr>content_sources = [\<lparr>url = ''/ws'', branches = ''HEAD'', startPath = ''docs''\<rparr>],
                       runtime = JObj [], site = JObj []\<rparr>"



definition yes_event :: open_event where
  "yes_event = \<lparr>document = index_page, found = [other_config, docs_config], reply = Yes\<rparr>"

definition no_event :: open_event where
  "no_event = \<lparr>document = index_page, found = [other_config, docs_config], reply = NoThanks\<rparr>"

definition readme_event :: open_event where
  "readme_event = \<lparr>document = readme_page, found = [other_config, docs_config], reply = NoThanks\<rparr>"

text \<open>
  Two documents of the component are opened one after the other and both questions come
  up; the user answers \<open>Yes\<close> to the first and \<open>No, thanks\<close> to the second.
\<close>

definition two_prompts :: "action list" where
  "two_prompts =
     [Opened yes_event, Opened no_event, Resumed 0, Resumed 1,
      Resumed 0, Resumed 0, Resumed 0,
      Resumed 1, Resumed 1, Resumed 1]"

text \<open>
  One document is opened and the user answers \<open>Yes\<close>; a second document is opened
  while the first handler waits for \<open>workspaceState.update\<close>.  \<open>until_disposed\<close> ends
  when the first handler has disposed the listener, \<open>prompt_after_yes\<close> lets the second
  handler continue from there.
\<close>

definition until_disposed :: "action list" where
  "until_disposed =
     [Opened yes_event, Resumed 0, Resumed 0, Opened no_event, Resumed 0, Resumed 0]"

definition prompt_after_yes :: "action list" where
  "prompt_after_yes = until_disposed @ [Resumed 1, Resumed 1, Resumed 1, Resumed 1]"

text \<open>
  A catalog whose \<open>resolveResource\<close> answers \<open>false\<close>, the answer to an identifier
  that cannot be parsed.
\<close>

definition rejecting_catalog :: content_catalog where
  "rejecting_catalog =
     sample_catalog\<lparr>resolveResource := (\<lambda>ident ctx family permitted. Inr (JBool False))\<rparr>"

section \<open>Properties\<close>

subsection \<open>Paths of well-formed locations\<close>

lemma split_slash_segment:
  "CHR ''/'' \<notin> set s \<Longrightarrow> split_slash cur (s @ CHR ''/'' # r) = (rev cur @ s) # split_slash [] r"
  by (induction s arbitrary: cur) auto

lemma split_slash_last:
  "CHR ''/'' \<notin> set s \<Longrightarrow> split_slash cur s = [rev cur @ s]"
  by (induction s arbitrary: cur) auto

lemma split_slash_abs_dir:
  "\<forall>s \<in> set segs. CHR ''/'' \<notin> set s \<Longrightarrow> CHR ''/'' \<notin> set s0 \<Longrightarrow> CHR ''/'' \<notin> set t \<Longrightarrow>
   split_slash cur (s0 @ abs_dir segs @ CHR ''/'' # t) = (rev cur @ s0) # segs @ [t]"
proof (induction segs arbitrary: cur s0)
  case Nil
  then show ?case by (simp add: abs_dir_def split_slash_segment split_slash_last)
next
  case (Cons a segs)
  have "split_slash cur (s0 @ abs_dir (a # segs) @ CHR ''/'' # t)
        = split_slash cur (s0 @ CHR ''/'' # (a @ abs_dir segs @ CHR ''/'' # t))"
    by (simp add: abs_dir_def)
  also have "\<dots> = (rev cur @ s0) # split_slash [] (a @ abs_dir segs @ CHR ''/'' # t)"
    using Cons.prems by (simp add: split_slash_segment)
  also have "split_slash [] (a @ abs_dir segs @ CHR ''/'' # t) = a # segs @ [t]"
    using Cons.IH[of a "[]"] Cons.prems by simp
  finally show ?case by simp
qed

lemma normalize_segments_plain:
  "\<forall>s \<in> set segs. s \<noteq> [] \<and> s \<noteq> ''.'' \<and> s \<noteq> ''..'' \<Longrightarrow>
   normalize_segments a res segs = rev res @ segs"
  by (induction segs arbitrary: res) auto

lemma join_slash_abs_dir:
  "CHR ''/'' # join_slash (segs @ [t]) = abs_dir segs @ CHR ''/'' # t"
proof (induction segs)
  case Nil
  show ?case by (simp add: abs_dir_def)
next
  case (Cons a segs)
  obtain b bs where "segs @ [t] = b # bs" by (cases "segs @ [t]") auto
  with Cons show ?case by (simp add: abs_dir_def)
qed

lemma dirname_scan_found:
  "CHR ''/'' \<notin> set name \<Longrightarrow> xs \<noteq> [] \<Longrightarrow> k \<le> length name \<Longrightarrow>
   dirname_scan (xs @ CHR ''/'' # name) (length xs + k) False = Some (length xs)"
proof (induction k)
  case 0
  then obtain n where "length xs = Suc n" by (cases xs) auto
  then show ?case by (simp add: nth_append)
next
  case (Suc k)
  then have "(xs @ CHR ''/'' # name) ! Suc (length xs + k) = name ! k"
    by (simp add: nth_append)
  moreover have "name ! k \<noteq> CHR ''/''" using Suc.prems by (metis Suc_le_lessD nth_mem)
  ultimately show ?case using Suc by simp
qed

lemma dirname_scan_none:
  "CHR ''/'' \<notin> set name \<Longrightarrow> k \<le> length name \<Longrightarrow>
   dirname_scan (CHR ''/'' # name) k ms = None"
proof (induction k arbitrary: ms)
  case 0
  show ?case by simp
next
  case (Suc k)
  then have "name ! k \<noteq> CHR ''/''" by (metis Suc_le_lessD nth_mem)
  then show ?case using Suc by simp
qed

lemma abs_dir_Nil: "abs_dir [] = []" by (simp add: abs_dir_def)
lemma abs_dir_Cons: "abs_dir (s # segs) = CHR ''/'' # s @ abs_dir segs" by (simp add: abs_dir_def)

lemma posix_dirname_config:
  assumes "\<forall>s \<in> set segs. dir_segment s" and "CHR ''/'' \<notin> set name" and "name \<noteq> []"
  shows "posix_dirname (abs_dir segs @ CHR ''/'' # name) = (if segs = [] then ''/'' else abs_dir segs)"
proof (cases segs)
  case Nil
  have "dirname_scan (CHR ''/'' # name) (length name) True = None"
    using assms(2) by (simp add: dirname_scan_none)
  then show ?thesis using Nil by (simp add: posix_dirname_def abs_dir_Nil)
next
  case (Cons a as)
  let ?xs = "abs_dir segs"
  let ?p = "?xs @ CHR ''/'' # name"
  have a: "a \<noteq> []" using assms(1) Cons by (simp add: dir_segment_def)
  then have len: "2 \<le> length ?xs" using Cons by (cases a) (simp_all add: abs_dir_Cons)
  then have ne: "?xs \<noteq> []" by auto
  obtain n where n: "length name = Suc n" using assms(3) by (cases name) auto
  have lastc: "?p ! (length ?xs + Suc n) = name ! n" by (simp add: nth_append)
  have "name ! n \<noteq> CHR ''/''" using assms(2) n by (metis lessI nth_mem)
  with lastc have "dirname_scan ?p (length ?xs + Suc n) True = dirname_scan ?p (length ?xs + n) False"
    by simp
  also have "\<dots> = Some (length ?xs)"
    using dirname_scan_found[OF assms(2) ne, of n] n by simp
  finally have scan: "dirname_scan ?p (length ?p - 1) True = Some (length ?xs)"
    using n by simp
  have "?p \<noteq> []" by simp
  then show ?thesis using scan len Cons
    by (simp add: posix_dirname_def Let_def)
qed

lemma posix_join_modules:
  assumes "\<forall>s \<in> set segs. dir_segment s"
  shows "posix_join [if segs = [] then ''/'' else abs_dir segs, ''modules''] = abs_dir segs @ ''/modules''"
proof (cases segs)
  case Nil
  show ?thesis unfolding Nil by (simp add: posix_join_def posix_normalize_def abs_dir_Nil)
next
  case (Cons a as)
  have noslash: "\<forall>s \<in> set segs. CHR ''/'' \<notin> set s" using assms by (simp add: dir_segment_def)
  have plain: "\<forall>s \<in> set (segs @ [''modules'']). s \<noteq> [] \<and> s \<noteq> ''.'' \<and> s \<noteq> ''..''"
    using assms by (auto simp: dir_segment_def)
  have ne: "abs_dir segs \<noteq> []" using Cons by (simp add: abs_dir_Cons)
  have hd: "hd (abs_dir segs @ ''/modules'') = CHR ''/''" using Cons by (simp add: abs_dir_Cons)
  have "split_slash [] (abs_dir segs @ CHR ''/'' # ''modules'') = [] # segs @ [''modules'']"
    using split_slash_abs_dir[OF noslash, of "[]" "''modules''" "[]"] by simp
  then have "normalize_segments False [] (split_slash [] (abs_dir segs @ CHR ''/'' # ''modules''))
             = segs @ [''modules'']"
    using normalize_segments_plain[OF plain, of False "[]"] by simp
  then have res: "join_slash (normalize_segments False [] (split_slash [] (abs_dir segs @ CHR ''/'' # ''modules'')))
             = join_slash (segs @ [''modules''])" by simp
  have jne: "join_slash (segs @ [''modules'']) \<noteq> []"
    using join_slash_abs_dir[of segs "''modules''"] Cons
    by (cases "segs @ [''modules'']") (auto simp: abs_dir_Cons)
  have "posix_normalize (abs_dir segs @ CHR ''/'' # ''modules'') = CHR ''/'' # join_slash (segs @ [''modules''])"
    using res jne hd by (simp add: posix_normalize_def Let_def)
  then have "posix_normalize (abs_dir segs @ CHR ''/'' # ''modules'') = abs_dir segs @ CHR ''/'' # ''modules''"
    by (simp only: join_slash_abs_dir)
  moreover have "posix_join [abs_dir segs, ''modules''] = posix_normalize (abs_dir segs @ CHR ''/'' # ''modules'')"
    using ne by (simp add: posix_join_def)
  ultimately show ?thesis using Cons by simp
qed

lemma modulesPath_config:
  assumes "\<forall>s \<in> set segs. dir_segment s"
  shows "posix_join [posix_dirname (abs_dir segs @ ''/antora.yml''), ''modules''] = abs_dir segs @ ''/modules''"
proof -
  have "posix_dirname (abs_dir segs @ CHR ''/'' # ''antora.yml'') = (if segs = [] then ''/'' else abs_dir segs)"
    by (rule posix_dirname_config[OF assms]) simp_all
  then show ?thesis using posix_join_modules[OF assms] by simp
qed

lemma startsWith_iff: "startsWith s p \<longleftrightarrow> (\<exists>r. s = p @ r)"
  unfolding startsWith_def
  by (metis append_eq_conv_conj append_take_drop_id)

lemma match_module_pages_iff:
  "match_module_pages s \<longleftrightarrow>
   (\<exists>m rest. m \<noteq> [] \<and> CHR ''/'' \<notin> set m \<and> s = CHR ''/'' # m @ ''/pages/'' @ rest)"
proof
  assume "match_module_pages s"
  then obtain r where s: "s = CHR ''/'' # r"
    and tw: "takeWhile (\<lambda>x. x \<noteq> CHR ''/'') r \<noteq> []"
    and dw: "startsWith (dropWhile (\<lambda>x. x \<noteq> CHR ''/'') r) ''/pages/''"
    by (auto simp: match_module_pages_def split: list.splits)
  from dw obtain rest where "dropWhile (\<lambda>x. x \<noteq> CHR ''/'') r = ''/pages/'' @ rest"
    by (auto simp: startsWith_iff)
  then have "r = takeWhile (\<lambda>x. x \<noteq> CHR ''/'') r @ ''/pages/'' @ rest"
    by (metis takeWhile_dropWhile_id)
  moreover have "CHR ''/'' \<notin> set (takeWhile (\<lambda>x. x \<noteq> CHR ''/'') r)"
    by (auto dest: set_takeWhileD)
  ultimately show "\<exists>m rest. m \<noteq> [] \<and> CHR ''/'' \<notin> set m \<and> s = CHR ''/'' # m @ ''/pages/'' @ rest"
    using s tw by blast
next
  assume "\<exists>m rest. m \<noteq> [] \<and> CHR ''/'' \<notin> set m \<and> s = CHR ''/'' # m @ ''/pages/'' @ rest"
  then obtain m rest where m: "m \<noteq> []" "CHR ''/'' \<notin> set m" and s: "s = CHR ''/'' # m @ ''/pages/'' @ rest"
    by blast
  have tw: "takeWhile (\<lambda>x. x \<noteq> CHR ''/'') (m @ ''/pages/'' @ rest) = m"
    using m(2) by (subst takeWhile_append2) auto
  have dw: "dropWhile (\<lambda>x. x \<noteq> CHR ''/'') (m @ ''/pages/'' @ rest) = ''/pages/'' @ rest"
    using m(2) by (subst dropWhile_append2) auto
  show "match_module_pages s"
    unfolding s match_module_pages_def using m(1) tw dw
    by (simp add: startsWith_iff)
qed

lemma applicable_modulesPath:
  "applicable antoraConfig p \<longleftrightarrow>
    (\<exists>m rest. m \<noteq> [] \<and> CHR ''/'' \<notin> set m
       \<and> p = posix_join [posix_dirname (path antoraConfig), ''modules'']
               @ ''/'' @ m @ ''/pages/'' @ rest)"
proof -
  let ?mp = "posix_join [posix_dirname (path antoraConfig), ''modules'']"
  have "applicable antoraConfig p \<longleftrightarrow> startsWith p ?mp \<and> match_module_pages (drop (length ?mp) p)"
    unfolding applicable_def Let_def slice_def by simp
  also have "\<dots> \<longleftrightarrow> (\<exists>r. p = ?mp @ r \<and> match_module_pages r)"
    by (auto simp: startsWith_iff)
  also have "\<dots> \<longleftrightarrow> (\<exists>m rest. m \<noteq> [] \<and> CHR ''/'' \<notin> set m
       \<and> p = ?mp @ ''/'' @ m @ ''/pages/'' @ rest)"
    unfolding match_module_pages_iff by auto
  finally show ?thesis .
qed

lemma applicable_iff:
  assumes "\<forall>s \<in> set segs. dir_segment s" and "path antoraConfig = abs_dir segs @ ''/antora.yml''"
  shows "applicable antoraConfig p \<longleftrightarrow>
    (\<exists>m rest. m \<noteq> [] \<and> CHR ''/'' \<notin> set m \<and> p = abs_dir segs @ ''/modules/'' @ m @ ''/pages/'' @ rest)"
proof -
  have mp: "posix_join [posix_dirname (path antoraConfig), ''modules''] = abs_dir segs @ ''/modules''"
    using modulesPath_config[OF assms(1)] assms(2) by simp
  show ?thesis unfolding applicable_modulesPath mp by simp
qed

lemma getAntoraConfig_find:
  "snd (getAntoraConfig antoraConfigs doc) = find (\<lambda>c. applicable c (fsPath doc)) antoraConfigs"
proof -
  have "map_option snd (getAntoraConfig_loop cs p) = find (\<lambda>c. applicable c p) cs" for cs p
    by (induction cs) auto
  from this[of antoraConfigs "fsPath doc"] show ?thesis
    by (cases "getAntoraConfig_loop antoraConfigs (fsPath doc)")
       (auto simp: getAntoraConfig_def Let_def)
qed

lemma other_config_not_applicable: "\<not> applicable other_config (fsPath index_page)"
  by (simp add: applicable_def other_config_def index_page_def posix_join_def
      posix_dirname_def posix_normalize_def startsWith_def slice_def match_module_pages_def)

lemma docs_config_applicable: "applicable docs_config (fsPath index_page)"
  by (simp add: applicable_def docs_config_def index_page_def posix_join_def
      posix_dirname_def posix_normalize_def startsWith_def slice_def match_module_pages_def)

lemma sample_getAntoraConfig:
  "getAntoraConfig [other_config, docs_config] index_page
   = ([FoundConfig (fsPath docs_config) (fsPath index_page)], Some docs_config)"
  by (simp add: getAntoraConfig_def other_config_not_applicable docs_config_applicable)

subsection \<open>The configuration locator\<close>

text \<open>
  Claim C1.  Let a candidate configuration file be located at \<open>root/antora.yml\<close>, where
  \<open>root = abs_dir segs\<close> is a well-formed directory location.  The test of
  \<open>getAntoraConfig\<close> accepts the candidate for a document path exactly when that path is
  \<open>root/modules/m/pages/rest\<close> for a non-empty segment \<open>m\<close> without a slash and any
  \<open>rest\<close>; it rejects \<open>root/modules/pages/x\<close> and \<open>root/modules/m/notpages/x\<close>.
  For any candidate at all, the test accepts a document path exactly when it is
  \<open>modulesPath/m/pages/rest\<close>, where \<open>modulesPath\<close> is the normalized join of the
  directory of the candidate with \<open>modules\<close>.  For every list of candidates,
  \<open>getAntoraConfig\<close> returns the first candidate of the list that passes the test, and
  none when no candidate passes it.
\<close>

theorem getAntoraConfig_membership_first_match:
  assumes "\<forall>s \<in> set segs. dir_segment s"
    and "path antoraConfig = abs_dir segs @ ''/antora.yml''"
  shows "(applicable antoraConfig p \<longleftrightarrow>
            (\<exists>m rest. m \<noteq> [] \<and> CHR ''/'' \<notin> set m
               \<and> p = abs_dir segs @ ''/modules/'' @ m @ ''/pages/'' @ rest))
         \<and> \<not> applicable antoraConfig (abs_dir segs @ ''/modules/pages/x'')
         \<and> \<not> applicable antoraConfig (abs_dir segs @ ''/modules/m/notpages/x'')
         \<and> (applicable c q \<longleftrightarrow>
               (\<exists>m rest. m \<noteq> [] \<and> CHR ''/'' \<notin> set m
                  \<and> q = posix_join [posix_dirname (path c), ''modules'']
                          @ ''/'' @ m @ ''/pages/'' @ rest))
         \<and> snd (getAntoraConfig antoraConfigs doc)
             = find (\<lambda>c. applicable c (fsPath doc)) antoraConfigs
         \<and> ((\<forall>c \<in> set antoraConfigs. \<not> applicable c (fsPath doc))
              \<longrightarrow> snd (getAntoraConfig antoraConfigs doc) = None)"
proof -
  let ?mp = "abs_dir segs @ ''/modules''"
  have mp: "posix_join [posix_dirname (path antoraConfig), ''modules''] = ?mp"
    using modulesPath_config[OF assms(1)] assms(2) by simp
  have rest: "applicable antoraConfig (?mp @ r) = match_module_pages r" for r
    unfolding applicable_def Let_def mp slice_def by (simp add: startsWith_def)
  have "\<not> match_module_pages ''/pages/x''"
    by (simp add: match_module_pages_def startsWith_def)
  then have r1: "\<not> applicable antoraConfig (abs_dir segs @ ''/modules/pages/x'')"
    using rest[of "''/pages/x''"] by simp
  have "\<not> match_module_pages ''/m/notpages/x''"
    by (simp add: match_module_pages_def startsWith_def)
  then have r2: "\<not> applicable antoraConfig (abs_dir segs @ ''/modules/m/notpages/x'')"
    using rest[of "''/m/notpages/x''"] by simp
  have f: "snd (getAntoraConfig antoraConfigs doc)
             = find (\<lambda>c. applicable c (fsPath doc)) antoraConfigs"
    by (rule getAntoraConfig_find)
  have n: "(\<forall>c \<in> set antoraConfigs. \<not> applicable c (fsPath doc))
              \<longrightarrow> snd (getAntoraConfig antoraConfigs doc) = None"
    unfolding f by (simp add: find_None_iff)
  show ?thesis using applicable_iff[OF assms] r1 r2 applicable_modulesPath[of c q] f n by blast
qed

theorem getAntoraConfig_membership_first_match_witness:
  "dir_segment ''ws'' \<and> dir_segment ''docs''
   \<and> path docs_config = abs_dir [''ws'', ''docs''] @ ''/antora.yml''
   \<and> applicable docs_config (fsPath index_page)
   \<and> \<not> applicable docs_config ''/ws/docs/modules/pages/x''
   \<and> \<not> applicable docs_config ''/ws/docs/modules/m/notpages/x''
   \<and> snd (getAntoraConfig [other_config, docs_config] index_page) = Some docs_config"
proof -
  have h1: "\<forall>s \<in> set [''ws'', ''docs'']. dir_segment s" by (simp add: dir_segment_def)
  have h2: "path docs_config = abs_dir [''ws'', ''docs''] @ ''/antora.yml''"
    by (simp add: docs_config_def abs_dir_def)
  note t = getAntoraConfig_membership_first_match[OF h1 h2,
      of "fsPath index_page" other_config "fsPath index_page"
         "[other_config, docs_config]" index_page]
  have ex: "\<exists>m rest. m \<noteq> [] \<and> CHR ''/'' \<notin> set m
      \<and> fsPath index_page = abs_dir [''ws'', ''docs''] @ ''/modules/'' @ m @ ''/pages/'' @ rest"
    by (rule exI[of _ "''ROOT''"], rule exI[of _ "''index.adoc''"])
       (simp add: index_page_def abs_dir_def)
  have a: "applicable docs_config (fsPath index_page)" using t ex by blast
  have b: "\<not> applicable other_config (fsPath index_page)"
    by (rule other_config_not_applicable)
  have c: "snd (getAntoraConfig [other_config, docs_config] index_page) = Some docs_config"
    using t a b by simp
  show ?thesis using h1 h2 a c t by (simp add: abs_dir_def)
qed

subsection \<open>Exceptions and the opt-in check\<close>

lemma and_then_Inl:
  "and_then r f = Inl e \<Longrightarrow> r = Inl e \<or> (\<exists>v. r = Inr v \<and> f v = Inl e)"
  by (cases r) (auto simp: and_then_def)

lemma get_prop_not_disabled: "get_prop v k \<noteq> Inl AntoraDisabledError"
  by (cases v) auto

lemma from_library_not_disabled: "from_library r \<noteq> Inl AntoraDisabledError"
  by (cases r) (auto simp: from_library_def)

lemma parseAntoraConfig_returns: "\<exists>v. snd (parseAntoraConfig h d) = Inr v"
  by (auto simp: parseAntoraConfig_def Let_def split: prod.splits option.splits sum.splits)

lemma getActiveAntoraConfig_returns: "\<exists>r. snd (getActiveAntoraConfig h d) = Inr r"
  by (auto simp: getActiveAntoraConfig_def Let_def split: prod.splits)

lemma getActiveAntoraConfig_disabled:
  "\<not> (antoraSupportSetting h = JBool True \<and> enableAntoraSupport h = JBool True) \<Longrightarrow>
   getActiveAntoraConfig h d = ([], Inr None)"
  by (auto simp: getActiveAntoraConfig_def Let_def)

lemma getActiveAntoraConfig_enabled:
  "antoraSupportSetting h = JBool True \<Longrightarrow> enableAntoraSupport h = JBool True \<Longrightarrow>
   getActiveAntoraConfig h d
     = (fst (getAntoraConfig (findFiles h) d), Inr (snd (getAntoraConfig (findFiles h) d)))"
  by (auto simp: getActiveAntoraConfig_def Let_def split: prod.splits)

lemma createPlaybook_disabled:
  "\<not> (antoraSupportSetting h = JBool True \<and> enableAntoraSupport h = JBool True) \<Longrightarrow>
   createPlaybook h d = ([], Inr None)"
  by (simp add: createPlaybook_def getActiveAntoraConfig_disabled)

lemma createPlaybook_not_disabled: "snd (createPlaybook h d) \<noteq> Inl AntoraDisabledError"
  using getActiveAntoraConfig_returns[of h d]
  by (auto simp: createPlaybook_def Let_def split: prod.splits sum.splits option.splits)

lemma getContentCatalog_try_not_disabled:
  "snd (getContentCatalog_try h d) \<noteq> Inl AntoraDisabledError"
proof
  assume a: "snd (getContentCatalog_try h d) = Inl AntoraDisabledError"
  obtain l r where cp: "createPlaybook h d = (l, r)" by (cases "createPlaybook h d")
  have r: "r \<noteq> Inl AntoraDisabledError" using createPlaybook_not_disabled[of h d] cp by simp
  show False
  proof (cases r)
    case (Inl e)
    then show False using a cp r by (simp add: getContentCatalog_try_def)
  next
    case (Inr p)
    show False
    proof (cases p)
      case None
      then show False using a cp Inr by (simp add: getContentCatalog_try_def)
    next
      case (Some pb)
      then have "and_then (from_library (aggregateContent h pb))
                (\<lambda>contentAggregate.
                   and_then (from_library (classifyContent h pb contentAggregate))
                     (\<lambda>catalog. Inr (Some catalog))) = Inl AntoraDisabledError"
        using a cp Inr by (simp add: getContentCatalog_try_def)
      then show False
        by (auto dest!: and_then_Inl simp: from_library_not_disabled)
    qed
  qed
qed

lemma createPlaybook_active:
  assumes "antoraSupportSetting h = JBool True" and "enableAntoraSupport h = JBool True"
    and "getAntoraConfig (findFiles h) d = (l, Some cfg)"
    and "getWorkspaceFolder h cfg = Some folder"
  shows "createPlaybook h d
         = (l, Inr (Some \<lparr>content_sources =
                            [\<lparr>url = fsPath folder, branches = ''HEAD'',
                              startPath = posix_relative (cwd h) (fsPath folder)
                                            (posix_dirname (fsPath cfg))\<rparr>],
                          runtime = JObj [], site = JObj []\<rparr>))"
  using assms by (simp add: createPlaybook_def getActiveAntoraConfig_def Let_def)

lemma sample_startPath:
  "posix_relative ''/'' ''/ws'' (posix_dirname ''/ws/docs/antora.yml'') = ''docs''"
proof -
  have d: "posix_dirname ''/ws/docs/antora.yml'' = ''/ws/docs''"
    by (simp add: posix_dirname_def)
  show ?thesis unfolding d
    by (simp add: posix_relative_def resolve_segments_def)
qed

lemma sample_createPlaybook:
  "createPlaybook (sample_host (JBool True) (JBool True)) index_page
   = ([FoundConfig (fsPath docs_config) (fsPath index_page)], Inr (Some sample_playbook))"
proof -
  let ?h = "sample_host (JBool True) (JBool True)"
  have "createPlaybook ?h index_page
        = ([FoundConfig (fsPath docs_config) (fsPath index_page)],
           Inr (Some \<lparr>content_sources =
                            [\<lparr>url = fsPath ws_folder, branches = ''HEAD'',
                              startPath = posix_relative (cwd ?h) (fsPath ws_folder)
                                            (posix_dirname (fsPath docs_config))\<rparr>],
                          runtime = JObj [], site = JObj []\<rparr>))"
    by (rule createPlaybook_active) (simp_all add: sample_host_def sample_getAntoraConfig)
  then show ?thesis
    using sample_startPath
    by (simp add: sample_host_def ws_folder_def docs_config_def sample_playbook_def)
qed

lemma failing_createPlaybook:
  "createPlaybook failing_host index_page
   = ([FoundConfig (fsPath docs_config) (fsPath index_page)], Inr (Some sample_playbook))"
proof -
  have "createPlaybook failing_host index_page
        = ([FoundConfig (fsPath docs_config) (fsPath index_page)],
           Inr (Some \<lparr>content_sources =
                            [\<lparr>url = fsPath ws_folder, branches = ''HEAD'',
                              startPath = posix_relative (cwd failing_host) (fsPath ws_folder)
                                            (posix_dirname (fsPath docs_config))\<rparr>],
                          runtime = JObj [], site = JObj []\<rparr>))"
    by (rule createPlaybook_active)
       (simp_all add: failing_host_def sample_host_def sample_getAntoraConfig)
  then show ?thesis
    using sample_startPath
    by (simp add: failing_host_def sample_host_def ws_folder_def docs_config_def
        sample_playbook_def)
qed

lemma readme_no_config:
  "getAntoraConfig [other_config, docs_config] readme_page
   = ([NoApplicableConfig [other_config, docs_config] (fsPath readme_page)], None)"
proof -
  have a: "\<not> applicable other_config (fsPath readme_page)"
    by (simp add: applicable_def other_config_def readme_page_def posix_join_def
      posix_dirname_def posix_normalize_def startsWith_def slice_def match_module_pages_def)
  have b: "\<not> applicable docs_config (fsPath readme_page)"
    by (simp add: applicable_def docs_config_def readme_page_def posix_join_def
      posix_dirname_def posix_normalize_def startsWith_def slice_def match_module_pages_def)
  show ?thesis using a b by (simp add: getAntoraConfig_def)
qed

lemma parseAntoraConfig_unparsable:
  "getAntoraConfig (findFiles h) d = (l, Some u) \<Longrightarrow> loadYaml h (fsPath u) = Inl err \<Longrightarrow>
   parseAntoraConfig h d = (l @ [UnableToParse (fsPath u) err], Inr (JObj []))"
  by (simp add: parseAntoraConfig_def Let_def)

lemma parseAntoraConfig_absent:
  "snd (getAntoraConfig (findFiles h) d) = None \<Longrightarrow>
   parseAntoraConfig h d = (fst (getAntoraConfig (findFiles h) d), Inr (JObj []))"
  by (cases "getAntoraConfig (findFiles h) d") (simp add: parseAntoraConfig_def)

subsection \<open>The catalog builder\<close>

text \<open>
  Claim C2.  When the persisted opt-in state is not enabled, that is, the value stored under
  \<open>antoraSupportSetting\<close> is not \<open>true\<close>, or it is \<open>true\<close> and the setting
  \<open>antora.enableAntoraSupport\<close> is not \<open>true\<close>, \<open>getContentCatalog\<close> returns
  \<open>undefined\<close> ("no catalog") and throws nothing, whatever the workspace contains; it
  does not even search for a configuration file, so nothing is logged.
\<close>

theorem getContentCatalog_disabled_no_catalog:
  assumes "\<not> (antoraSupportSetting h = JBool True \<and> enableAntoraSupport h = JBool True)"
  shows "getContentCatalog h textDocumentUri = ([], Inr None)"
  using assms
  by (simp add: getContentCatalog_def getContentCatalog_try_def createPlaybook_disabled)

theorem getContentCatalog_disabled_no_catalog_witness:
  "snd (getAntoraConfig (findFiles (sample_host (JBool True) (JBool False))) index_page)
     = Some docs_config
   \<and> getContentCatalog (sample_host (JBool True) (JBool False)) index_page = ([], Inr None)
   \<and> getContentCatalog (sample_host JUndefined (JBool True)) index_page = ([], Inr None)"
proof -
  have a: "snd (getAntoraConfig (findFiles (sample_host (JBool True) (JBool False))) index_page)
     = Some docs_config"
    by (simp add: sample_host_def sample_getAntoraConfig)
  have b: "getContentCatalog (sample_host (JBool True) (JBool False)) index_page = ([], Inr None)"
    using getContentCatalog_disabled_no_catalog[of "sample_host (JBool True) (JBool False)" index_page]
    by (simp add: sample_host_def)
  have c: "getContentCatalog (sample_host JUndefined (JBool True)) index_page = ([], Inr None)"
    using getContentCatalog_disabled_no_catalog[of "sample_host JUndefined (JBool True)" index_page]
    by (simp add: sample_host_def)
  show ?thesis using a b c by simp
qed

text \<open>
  Claim C3.  \<open>getContentCatalog\<close> hands every exception of its \<open>try\<close> block to
  its \<open>catch\<close> clause.  The clause swallows an \<open>AntoraDisabledError\<close> and returns
  \<open>undefined\<close> ("no catalog") without logging; every other exception \<open>e\<close> it logs and
  throws again, the same \<open>e\<close>.  In particular an exception of the aggregation step, of
  the classification step or of the construction of the playbook is logged and rethrown.
\<close>

theorem getContentCatalog_logs_and_rethrows:
  "getContentCatalog h d
     = (case getContentCatalog_try h d of
          (l, Inl e) \<Rightarrow> getContentCatalog_catch l e
        | (l, Inr r) \<Rightarrow> (l, Inr r))
   \<and> getContentCatalog_catch l' AntoraDisabledError = (l', Inr None)
   \<and> (e' \<noteq> AntoraDisabledError \<longrightarrow>
        getContentCatalog_catch l' e' = (l' @ [UnableToCreateCatalog e'], Inl e'))
   \<and> (getContentCatalog_try h d = (l, Inl e) \<longrightarrow>
      getContentCatalog h d
        = (if e = AntoraDisabledError then (l, Inr None)
           else (l @ [UnableToCreateCatalog e], Inl e)))
   \<and> (createPlaybook h d = (l, Inr (Some pb)) \<and> aggregateContent h pb = Inl msg \<longrightarrow>
      getContentCatalog h d
        = (l @ [UnableToCreateCatalog (External msg)], Inl (External msg)))
   \<and> (createPlaybook h d = (l, Inr (Some pb)) \<and> aggregateContent h pb = Inr agg
        \<and> classifyContent h pb agg = Inl msg \<longrightarrow>
      getContentCatalog h d
        = (l @ [UnableToCreateCatalog (External msg)], Inl (External msg)))
   \<and> (createPlaybook h d = (l, Inl e) \<and> e \<noteq> AntoraDisabledError \<longrightarrow>
      getContentCatalog h d = (l @ [UnableToCreateCatalog e], Inl e))"
  by (simp add: getContentCatalog_def getContentCatalog_try_def getContentCatalog_catch_def
      and_then_def from_library_def)

theorem getContentCatalog_logs_and_rethrows_witness:
  "createPlaybook failing_host index_page
     = ([FoundConfig (fsPath docs_config) (fsPath index_page)], Inr (Some sample_playbook))
   \<and> aggregateContent failing_host sample_playbook = Inl ''ENOENT''
   \<and> getContentCatalog failing_host index_page
     = ([FoundConfig (fsPath docs_config) (fsPath index_page),
         UnableToCreateCatalog (External ''ENOENT'')], Inl (External ''ENOENT''))
   \<and> getContentCatalog_catch [FoundConfig (fsPath docs_config) (fsPath index_page)]
         AntoraDisabledError
     = ([FoundConfig (fsPath docs_config) (fsPath index_page)], Inr None)
   \<and> getContentCatalog_catch [] TypeError = ([UnableToCreateCatalog TypeError], Inl TypeError)"
proof -
  have a: "createPlaybook failing_host index_page
     = ([FoundConfig (fsPath docs_config) (fsPath index_page)], Inr (Some sample_playbook))"
    by (rule failing_createPlaybook)
  have b: "aggregateContent failing_host sample_playbook = Inl ''ENOENT''"
    by (simp add: failing_host_def)
  note t = getContentCatalog_logs_and_rethrows[of failing_host index_page
        "[FoundConfig (fsPath docs_config) (fsPath index_page)]" TypeError
        "[FoundConfig (fsPath docs_config) (fsPath index_page)]" "External ''ENOENT''"
        sample_playbook "''ENOENT''" "()"]
  from t have "createPlaybook failing_host index_page
        = ([FoundConfig (fsPath docs_config) (fsPath index_page)], Inr (Some sample_playbook))
      \<and> aggregateContent failing_host sample_playbook = Inl ''ENOENT''
      \<longrightarrow> getContentCatalog failing_host index_page
        = ([FoundConfig (fsPath docs_config) (fsPath index_page)]
             @ [UnableToCreateCatalog (External ''ENOENT'')], Inl (External ''ENOENT''))"
    by blast
  with a b have c: "getContentCatalog failing_host index_page
     = ([FoundConfig (fsPath docs_config) (fsPath index_page),
         UnableToCreateCatalog (External ''ENOENT'')], Inl (External ''ENOENT''))"
    by simp
  have d: "getContentCatalog_catch [FoundConfig (fsPath docs_config) (fsPath index_page)]
         AntoraDisabledError
     = ([FoundConfig (fsPath docs_config) (fsPath index_page)], Inr None)"
    using t by blast
  have e: "getContentCatalog_catch [] TypeError = ([UnableToCreateCatalog TypeError], Inl TypeError)"
  proof -
    from getContentCatalog_logs_and_rethrows[of failing_host index_page "[]" TypeError]
    have "TypeError \<noteq> AntoraDisabledError \<longrightarrow>
        getContentCatalog_catch [] TypeError = ([] @ [UnableToCreateCatalog TypeError], Inl TypeError)"
      by blast
    then show ?thesis by simp
  qed
  show ?thesis using a b c d e by (intro conjI)
qed

subsection \<open>The configuration parser\<close>

text \<open>
  Claim C6.  \<open>parseAntoraConfig\<close> never throws.  When the located configuration file
  cannot be read or parsed, it logs the failure and returns the empty object; when no
  configuration file can be located, it returns the empty object as well.
\<close>

theorem parseAntoraConfig_never_raises:
  "(\<exists>v. snd (parseAntoraConfig h d) = Inr v)
   \<and> (getAntoraConfig (findFiles h) d = (l, Some u) \<and> loadYaml h (fsPath u) = Inl err \<longrightarrow>
        parseAntoraConfig h d = (l @ [UnableToParse (fsPath u) err], Inr (JObj [])))
   \<and> (snd (getAntoraConfig (findFiles h) d) = None \<longrightarrow>
        snd (parseAntoraConfig h d) = Inr (JObj []))"
  using parseAntoraConfig_returns[of h d]
  by (simp add: parseAntoraConfig_unparsable parseAntoraConfig_absent)

theorem parseAntoraConfig_never_raises_witness:
  "getAntoraConfig (findFiles unparsable_host) index_page
     = ([FoundConfig (fsPath docs_config) (fsPath index_page)], Some docs_config)
   \<and> loadYaml unparsable_host (fsPath docs_config) = Inl ''YAMLException''
   \<and> parseAntoraConfig unparsable_host index_page
     = ([FoundConfig (fsPath docs_config) (fsPath index_page),
         UnableToParse (fsPath docs_config) ''YAMLException''], Inr (JObj []))
   \<and> snd (getAntoraConfig (findFiles unparsable_host) readme_page) = None
   \<and> snd (parseAntoraConfig unparsable_host readme_page) = Inr (JObj [])"
proof -
  have a: "getAntoraConfig (findFiles unparsable_host) index_page
     = ([FoundConfig (fsPath docs_config) (fsPath index_page)], Some docs_config)"
    by (simp add: unparsable_host_def sample_host_def sample_getAntoraConfig)
  have b: "loadYaml unparsable_host (fsPath docs_config) = Inl ''YAMLException''"
    by (simp add: unparsable_host_def)
  have c: "snd (getAntoraConfig (findFiles unparsable_host) readme_page) = None"
    by (simp add: unparsable_host_def sample_host_def readme_no_config)
  show ?thesis
    using a b c
      parseAntoraConfig_never_raises[of unparsable_host index_page
        "[FoundConfig (fsPath docs_config) (fsPath index_page)]" docs_config "''YAMLException''"]
      parseAntoraConfig_never_raises[of unparsable_host readme_page]
    by simp
qed

text \<open>
  Claim C9.  The guard \<open>doc !== {}\<close> of \<open>getAttributes\<close> holds for every \<open>doc\<close>.
  Hence, when \<open>parseAntoraConfig\<close> yields the empty object, because the configuration
  is absent or cannot be parsed, \<open>getAttributes\<close> does not return an empty mapping: it
  reads \<open>doc.asciidoc.attributes\<close> and fails with a \<open>TypeError\<close>.
\<close>

theorem getAttributes_fails_on_empty_config:
  "differs_from_new_object doc
   \<and> (snd (parseAntoraConfig h d) = Inr (JObj []) \<longrightarrow>
        snd (getAttributes h d) = Inl TypeError)
   \<and> (snd (getAntoraConfig (findFiles h) d) = None \<longrightarrow>
        snd (getAttributes h d) = Inl TypeError)
   \<and> (getAntoraConfig (findFiles h) d = (l, Some u) \<and> loadYaml h (fsPath u) = Inl err \<longrightarrow>
        snd (getAttributes h d) = Inl TypeError)"
proof -
  have e: "snd (getAttributes h d) = Inl TypeError" if "snd (parseAntoraConfig h d) = Inr (JObj [])"
    using that
    by (cases "parseAntoraConfig h d")
       (simp add: getAttributes_def differs_from_new_object_def and_then_def own_prop_def)
  show ?thesis
    using e by (auto simp: differs_from_new_object_def parseAntoraConfig_unparsable
        parseAntoraConfig_absent)
qed

theorem getAttributes_fails_on_empty_config_witness:
  "snd (parseAntoraConfig unparsable_host index_page) = Inr (JObj [])
   \<and> snd (getAttributes unparsable_host index_page) = Inl TypeError
   \<and> snd (getAntoraConfig (findFiles unparsable_host) readme_page) = None
   \<and> snd (getAttributes unparsable_host readme_page) = Inl TypeError"
proof -
  have a: "getAntoraConfig (findFiles unparsable_host) index_page
     = ([FoundConfig (fsPath docs_config) (fsPath index_page)], Some docs_config)"
    by (simp add: unparsable_host_def sample_host_def sample_getAntoraConfig)
  have b: "loadYaml unparsable_host (fsPath docs_config) = Inl ''YAMLException''"
    by (simp add: unparsable_host_def)
  have p: "snd (parseAntoraConfig unparsable_host index_page) = Inr (JObj [])"
    using parseAntoraConfig_unparsable[OF a b] by simp
  have c: "snd (getAntoraConfig (findFiles unparsable_host) readme_page) = None"
    by (simp add: unparsable_host_def sample_host_def readme_no_config)
  show ?thesis
    using p c
      getAttributes_fails_on_empty_config[of JNull unparsable_host index_page]
      getAttributes_fails_on_empty_config[of JNull unparsable_host readme_page]
    by simp
qed

subsection \<open>The playbook\<close>

lemma abs_dir_snoc: "abs_dir (segs @ [t]) = abs_dir segs @ CHR ''/'' # t"
  by (simp add: abs_dir_def)

lemma abs_dir_hd: "segs \<noteq> [] \<Longrightarrow> abs_dir segs \<noteq> [] \<and> hd (abs_dir segs) = CHR ''/''"
  by (cases segs) (simp_all add: abs_dir_Cons)

lemma resolve_segments_abs_dir:
  assumes "segs \<noteq> []" and "\<forall>s \<in> set segs. dir_segment s"
  shows "resolve_segments wd (abs_dir segs) = segs"
proof -
  obtain ys t where segs: "segs = ys @ [t]" using assms(1) by (cases segs rule: rev_cases) auto
  have ns: "\<forall>s \<in> set ys. CHR ''/'' \<notin> set s" "CHR ''/'' \<notin> set t"
    using assms(2) segs by (auto simp: dir_segment_def)
  have sp: "split_slash [] (abs_dir segs) = [] # segs"
    using split_slash_abs_dir[OF ns(1) _ ns(2), of "[]" "[]"] segs by (simp add: abs_dir_snoc)
  have plain: "\<forall>s \<in> set segs. s \<noteq> [] \<and> s \<noteq> ''.'' \<and> s \<noteq> ''..''"
    using assms(2) by (auto simp: dir_segment_def)
  show ?thesis
    using abs_dir_hd[OF assms(1)] sp normalize_segments_plain[OF plain, of False "[]"]
    by (simp add: resolve_segments_def)
qed

lemma drop_common_prefix: "drop_common xs (xs @ ys) = ([], ys)"
proof (induction xs)
  case Nil
  show ?case by (cases ys) simp_all
next
  case (Cons a xs)
  then show ?case by simp
qed

lemma posix_relative_below:
  assumes "ws \<noteq> []" and "\<forall>s \<in> set (ws @ sub). dir_segment s"
  shows "posix_relative wd (abs_dir ws) (abs_dir (ws @ sub)) = join_slash sub"
proof -
  have a: "resolve_segments wd (abs_dir ws) = ws"
    using assms by (intro resolve_segments_abs_dir) auto
  have b: "resolve_segments wd (abs_dir (ws @ sub)) = ws @ sub"
    using assms by (intro resolve_segments_abs_dir) auto
  show ?thesis by (simp add: posix_relative_def a b drop_common_prefix)
qed

lemma startPath_below:
  assumes "ws \<noteq> []" and "\<forall>s \<in> set (ws @ sub). dir_segment s"
  shows "posix_relative wd (abs_dir ws) (posix_dirname (abs_dir (ws @ sub) @ ''/antora.yml''))
         = join_slash sub"
proof -
  have "posix_dirname (abs_dir (ws @ sub) @ CHR ''/'' # ''antora.yml'') = abs_dir (ws @ sub)"
    using posix_dirname_config[OF assms(2), of "''antora.yml''"] assms(1) by simp
  then show ?thesis using posix_relative_below[OF assms] by simp
qed

text \<open>
  Claim C8.  When support is active for a document, that is, \<open>getActiveAntoraConfig\<close>
  returns a configuration file (the stored flag and the setting are both \<open>true\<close> and the
  locator finds a file), and the file lies in a workspace folder, \<open>createPlaybook\<close>
  returns a playbook whose content sources are one entry with \<open>url\<close> the root path of
  that folder, \<open>branches\<close> the text \<open>HEAD\<close> and \<open>startPath\<close> the relative path
  from that root to the directory of the configuration file, with empty \<open>runtime\<close> and
  \<open>site\<close>.  For a configuration file at \<open>ws/sub/antora.yml\<close> below the folder
  \<open>ws\<close> the start path is \<open>sub\<close>.  When support is not active, \<open>createPlaybook\<close>
  returns no playbook.
\<close>

theorem createPlaybook_single_content_source:
  "(getActiveAntoraConfig h d = (l, Inr (Some cfg)) \<and> getWorkspaceFolder h cfg = Some folder \<longrightarrow>
      createPlaybook h d
        = (l, Inr (Some \<lparr>content_sources =
                           [\<lparr>url = fsPath folder, branches = ''HEAD'',
                             startPath = posix_relative (cwd h) (fsPath folder)
                                           (posix_dirname (fsPath cfg))\<rparr>],
                         runtime = JObj [], site = JObj []\<rparr>)))
   \<and> (ws \<noteq> [] \<and> list_all dir_segment (ws @ sub) \<longrightarrow>
        posix_relative wd (abs_dir ws) (posix_dirname (abs_dir (ws @ sub) @ ''/antora.yml''))
          = join_slash sub)
   \<and> (getActiveAntoraConfig h d = (l, Inr None) \<longrightarrow> createPlaybook h d = (l, Inr None))
   \<and> (getActiveAntoraConfig h d = (l, Inr (Some cfg)) \<longleftrightarrow>
        antoraSupportSetting h = JBool True \<and> enableAntoraSupport h = JBool True
        \<and> getAntoraConfig (findFiles h) d = (l, Some cfg))"
proof -
  have a: "getActiveAntoraConfig h d = (l, Inr (Some cfg)) \<longleftrightarrow>
        antoraSupportSetting h = JBool True \<and> enableAntoraSupport h = JBool True
        \<and> getAntoraConfig (findFiles h) d = (l, Some cfg)"
    by (cases "getAntoraConfig (findFiles h) d")
       (auto simp: getActiveAntoraConfig_def Let_def)
  have b: "posix_relative wd (abs_dir ws) (posix_dirname (abs_dir (ws @ sub) @ ''/antora.yml''))
          = join_slash sub" if "ws \<noteq> []" "list_all dir_segment (ws @ sub)"
    using that by (intro startPath_below) (auto simp: list_all_iff)
  have c: "getActiveAntoraConfig h d = (l, Inr (Some cfg)) \<and> getWorkspaceFolder h cfg = Some folder \<longrightarrow>
      createPlaybook h d
        = (l, Inr (Some \<lparr>content_sources =
                           [\<lparr>url = fsPath folder, branches = ''HEAD'',
                             startPath = posix_relative (cwd h) (fsPath folder)
                                           (posix_dirname (fsPath cfg))\<rparr>],
                         runtime = JObj [], site = JObj []\<rparr>))"
    by (simp add: createPlaybook_def Let_def)
  have n: "getActiveAntoraConfig h d = (l, Inr None) \<longrightarrow> createPlaybook h d = (l, Inr None)"
    by (simp add: createPlaybook_def)
  show ?thesis
    using a b c n by blast
qed

theorem createPlaybook_single_content_source_witness:
  "getActiveAntoraConfig (sample_host (JBool True) (JBool True)) index_page
     = ([FoundConfig (fsPath docs_config) (fsPath index_page)], Inr (Some docs_config))
   \<and> getWorkspaceFolder (sample_host (JBool True) (JBool True)) docs_config = Some ws_folder
   \<and> createPlaybook (sample_host (JBool True) (JBool True)) index_page
     = ([FoundConfig (fsPath docs_config) (fsPath index_page)],
        Inr (Some \<lparr>content_sources =
                     [\<lparr>url = ''/ws'', branches = ''HEAD'', startPath = ''docs''\<rparr>],
                   runtime = JObj [], site = JObj []\<rparr>))
   \<and> getActiveAntoraConfig (sample_host (JBool True) (JBool False)) index_page = ([], Inr None)
   \<and> createPlaybook (sample_host (JBool True) (JBool False)) index_page = ([], Inr None)"
proof -
  let ?h = "sample_host (JBool True) (JBool True)"
  let ?l = "[FoundConfig (fsPath docs_config) (fsPath index_page)]"
  have a: "getActiveAntoraConfig ?h index_page = (?l, Inr (Some docs_config))"
    by (simp add: getActiveAntoraConfig_def sample_host_def sample_getAntoraConfig)
  have b: "getWorkspaceFolder ?h docs_config = Some ws_folder"
    by (simp add: sample_host_def)
  have s: "ws_folder = \<lparr>path = abs_dir [''ws''], fsPath = abs_dir [''ws'']\<rparr>"
    "fsPath docs_config = abs_dir ([''ws''] @ [''docs'']) @ ''/antora.yml''"
    by (simp_all add: ws_folder_def docs_config_def abs_dir_def)
  have w: "[''ws''] \<noteq> [] \<and> list_all dir_segment ([''ws''] @ [''docs''])"
    by (simp add: dir_segment_def)
  note t = createPlaybook_single_content_source[of ?h index_page ?l docs_config ws_folder
      "[''ws'']" "[''docs'']" "cwd ?h"]
  have c: "createPlaybook ?h index_page
     = (?l, Inr (Some \<lparr>content_sources =
                     [\<lparr>url = ''/ws'', branches = ''HEAD'', startPath = ''docs''\<rparr>],
                   runtime = JObj [], site = JObj []\<rparr>))"
    using t a b w unfolding s by (simp add: abs_dir_def)
  let ?h' = "sample_host (JBool True) (JBool False)"
  have d: "getActiveAntoraConfig ?h' index_page = ([], Inr None)"
    by (simp add: getActiveAntoraConfig_def sample_host_def)
  have e: "createPlaybook ?h' index_page = ([], Inr None)"
    using createPlaybook_single_content_source[of ?h' index_page "[]"] d by simp
  show ?thesis using a b c d e by simp
qed

subsection \<open>The source and resource resolver\<close>

lemma getSrc_try_not_disabled: "getSrc_try c doc p \<noteq> Inl AntoraDisabledError"
proof
  assume "getSrc_try c doc p = Inl AntoraDisabledError"
  then show False
    unfolding getSrc_try_def
    by (auto dest!: and_then_Inl simp: get_prop_not_disabled from_library_not_disabled)
qed

lemma getSrc_returns: "\<exists>v. snd (getSrc h d cat) = Inr v"
proof -
  obtain l1 a where g: "getAntoraConfig (findFiles h) d = (l1, a)"
    by (cases "getAntoraConfig (findFiles h) d")
  obtain l2 doc where p: "parseAntoraConfig h d = (l2, Inr doc)"
    using parseAntoraConfig_returns[of h d] by (cases "parseAntoraConfig h d") auto
  show ?thesis
    by (simp add: getSrc_def g p Let_def split: option.splits sum.splits)
qed









text \<open>
  The part of claim C5 that holds.  \<open>resolveAntoraResourceIds\<close> returns \<open>undefined\<close> when the
  catalog is absent.  Otherwise its result is decided by one query of the catalog: the
  identifier, the context made of the \<open>component\<close>, \<open>version\<close> and \<open>module\<close> of the
  given source identity, the given family, and the permitted families \<open>attachment\<close>,
  \<open>example\<close>, \<open>image\<close>, \<open>page\<close>, \<open>partial\<close> and no other.  When the catalog
  answers \<open>undefined\<close> the result is \<open>undefined\<close>; when it answers a resource that has
  a source descriptor the result is the \<open>abspath\<close> of that descriptor.
\<close>

theorem resolveAntoraResourceIds_five_families:
  "resolveAntoraResourceIds ident None src family = Inr JUndefined
   \<and> (resolveResource c ident
         (JObj [(''component'', own_prop kvs ''component''),
                (''version'', own_prop kvs ''version''),
                (''module'', own_prop kvs ''module'')])
         family [''attachment'', ''example'', ''image'', ''page'', ''partial'']
        = Inr JUndefined
      \<longrightarrow> resolveAntoraResourceIds ident (Some c) (JObj kvs) family = Inr JUndefined)
   \<and> (resolveResource c ident
         (JObj [(''component'', own_prop kvs ''component''),
                (''version'', own_prop kvs ''version''),
                (''module'', own_prop kvs ''module'')])
         family [''attachment'', ''example'', ''image'', ''page'', ''partial'']
        = Inr (JObj rkvs)
        \<and> own_prop rkvs ''src'' = JObj skvs
      \<longrightarrow> resolveAntoraResourceIds ident (Some c) (JObj kvs) family
            = Inr (own_prop skvs ''abspath''))
   \<and> (resolveResource c ident
         (JObj [(''component'', own_prop kvs ''component''),
                (''version'', own_prop kvs ''version''),
                (''module'', own_prop kvs ''module'')])
         family [''attachment'', ''example'', ''image'', ''page'', ''partial'']
       = resolveResource c' ident
         (JObj [(''component'', own_prop kvs ''component''),
                (''version'', own_prop kvs ''version''),
                (''module'', own_prop kvs ''module'')])
         family [''attachment'', ''example'', ''image'', ''page'', ''partial'']
      \<longrightarrow> resolveAntoraResourceIds ident (Some c) (JObj kvs) family
            = resolveAntoraResourceIds ident (Some c') (JObj kvs) family)"
  by (simp add: resolveAntoraResourceIds_def allowed_families_def and_then_def from_library_def)

theorem resolveAntoraResourceIds_five_families_witness:
  "resolveAntoraResourceIds ''index.adoc'' None index_src ''page'' = Inr JUndefined
   \<and> resolveAntoraResourceIds ''index.adoc'' (Some sample_catalog) index_src ''page''
       = Inr (JStr ''/ws/docs/modules/ROOT/pages/index.adoc'')
   \<and> resolveAntoraResourceIds ''index.adoc'' (Some sample_catalog) index_src ''nav''
       = Inr JUndefined"
proof -
  let ?kvs = "[(''component'', JStr ''docs''), (''version'', JStr ''1.0''),
                     (''module'', JStr ''ROOT''), (''family'', JStr ''page''),
                     (''relative'', JStr ''index.adoc''),
                     (''abspath'', JStr ''/ws/docs/modules/ROOT/pages/index.adoc'')]"
  have i: "index_src = JObj ?kvs" by (simp add: index_src_def)
  have a: "resolveAntoraResourceIds ''index.adoc'' None index_src ''page'' = Inr JUndefined"
    using resolveAntoraResourceIds_five_families[of "''index.adoc''" index_src "''page''"]
    by simp
  have b: "resolveAntoraResourceIds ''index.adoc'' (Some sample_catalog) (JObj ?kvs) ''page''
       = Inr (JStr ''/ws/docs/modules/ROOT/pages/index.adoc'')"
    using resolveAntoraResourceIds_five_families[of "''index.adoc''" index_src "''page''"
        sample_catalog ?kvs "[(''src'', index_src)]" ?kvs]
    by (simp add: sample_catalog_def own_prop_def index_src_def)
  have c: "resolveAntoraResourceIds ''index.adoc'' (Some sample_catalog) (JObj ?kvs) ''nav''
       = Inr JUndefined"
    using resolveAntoraResourceIds_five_families[of "''index.adoc''" index_src "''nav''"
        sample_catalog ?kvs]
    by (simp add: sample_catalog_def)
  show ?thesis using a b c unfolding i by simp
qed

text \<open>
  Claim C5 promises the path or \<open>undefined\<close> for every identifier.  The function
  tests the answer of the catalog with \<open>resource !== undefined\<close> only (line 223): when
  the catalog answers \<open>false\<close>, as it does for \<open>a:b:c:d\<close>, which is not a resource
  identifier, the function reads \<open>resource.src.abspath\<close> and throws a \<open>TypeError\<close>
  instead of returning \<open>undefined\<close>.
\<close>

theorem resolveAntoraResourceIds_false_answer_throws:
  "resolveResource rejecting_catalog ''a:b:c:d''
       (JObj [(''component'', JStr ''docs''), (''version'', JStr ''1.0''),
              (''module'', JStr ''ROOT'')])
       ''page'' [''attachment'', ''example'', ''image'', ''page'', ''partial'']
     = Inr (JBool False)
   \<and> resolveAntoraResourceIds ''a:b:c:d'' (Some rejecting_catalog) index_src ''page''
     = Inl TypeError"
  by (simp add: resolveAntoraResourceIds_def rejecting_catalog_def index_src_def
      allowed_families_def and_then_def from_library_def own_prop_def)

subsection \<open>The disabled-support signal\<close>

lemma getAttributes_not_disabled: "snd (getAttributes h d) \<noteq> Inl AntoraDisabledError"
proof -
  obtain l doc where p: "parseAntoraConfig h d = (l, Inr doc)"
    using parseAntoraConfig_returns[of h d] by (cases "parseAntoraConfig h d") auto
  have "and_then (get_prop doc ''asciidoc'') (\<lambda>a. get_prop a ''attributes'')
        \<noteq> Inl AntoraDisabledError"
    by (auto dest!: and_then_Inl simp: get_prop_not_disabled)
  then show ?thesis by (simp add: getAttributes_def p)
qed

lemma resolveAntoraResourceIds_not_disabled:
  "resolveAntoraResourceIds ident cat src family \<noteq> Inl AntoraDisabledError"
proof (cases cat)
  case None
  then show ?thesis by (simp add: resolveAntoraResourceIds_def)
next
  case (Some c)
  show ?thesis
  proof
    assume "resolveAntoraResourceIds ident cat src family = Inl AntoraDisabledError"
    then show False
      unfolding resolveAntoraResourceIds_def Some
      by (auto dest!: and_then_Inl simp: get_prop_not_disabled from_library_not_disabled
          split: if_splits)
  qed
qed

text \<open>
  Claim C10.  No function of the module throws \<open>AntoraDisabledError\<close>:
  \<open>getActiveAntoraConfig\<close> always returns (it returns \<open>undefined\<close> where the
  \<open>throw\<close> is commented out), and neither \<open>createPlaybook\<close>, the \<open>try\<close> block of
  \<open>getContentCatalog\<close>, \<open>parseAntoraConfig\<close>, \<open>getAttributes\<close>, \<open>getSrc\<close> nor
  \<open>resolveAntoraResourceIds\<close> raises it.  So the branch of the \<open>catch\<close> clause that
  swallows it is never taken: \<open>getContentCatalog\<close> logs and rethrows every exception
  of its \<open>try\<close> block.  With support disabled, the active configuration is
  \<open>undefined\<close>, the playbook is \<open>undefined\<close> and so is the catalog; and
  \<open>getContentCatalog\<close> returns \<open>undefined\<close> exactly when \<open>createPlaybook\<close> does.
\<close>

theorem AntoraDisabledError_never_thrown:
  "(\<exists>r. snd (getActiveAntoraConfig h d) = Inr r)
   \<and> snd (createPlaybook h d) \<noteq> Inl AntoraDisabledError
   \<and> snd (getContentCatalog_try h d) \<noteq> Inl AntoraDisabledError
   \<and> (\<exists>v. snd (parseAntoraConfig h d) = Inr v)
   \<and> snd (getAttributes h d) \<noteq> Inl AntoraDisabledError
   \<and> (\<exists>v. snd (getSrc h d cat) = Inr v)
   \<and> resolveAntoraResourceIds ident cat src family \<noteq> Inl AntoraDisabledError
   \<and> getContentCatalog h d
       = (case getContentCatalog_try h d of
            (l, Inl e) \<Rightarrow> (l @ [UnableToCreateCatalog e], Inl e)
          | (l, Inr r) \<Rightarrow> (l, Inr r))
   \<and> (\<not> (antoraSupportSetting h = JBool True \<and> enableAntoraSupport h = JBool True) \<longrightarrow>
        getActiveAntoraConfig h d = ([], Inr None)
        \<and> createPlaybook h d = ([], Inr None)
        \<and> getContentCatalog h d = ([], Inr None))
   \<and> (snd (getContentCatalog h d) = Inr None \<longleftrightarrow> snd (createPlaybook h d) = Inr None)"
proof -
  have t: "snd (getContentCatalog_try h d) \<noteq> Inl AntoraDisabledError"
    by (rule getContentCatalog_try_not_disabled)
  have g: "getContentCatalog h d
       = (case getContentCatalog_try h d of
            (l, Inl e) \<Rightarrow> (l @ [UnableToCreateCatalog e], Inl e)
          | (l, Inr r) \<Rightarrow> (l, Inr r))"
    using t
    by (cases "getContentCatalog_try h d")
       (auto simp: getContentCatalog_def getContentCatalog_catch_def split: sum.splits)
  have n: "snd (getContentCatalog h d) = Inr None \<longleftrightarrow> snd (createPlaybook h d) = Inr None"
    unfolding g getContentCatalog_try_def
    by (auto simp: and_then_def from_library_def split: prod.splits sum.splits option.splits)
  have dis: "\<not> (antoraSupportSetting h = JBool True \<and> enableAntoraSupport h = JBool True) \<longrightarrow>
        getActiveAntoraConfig h d = ([], Inr None)
        \<and> createPlaybook h d = ([], Inr None)
        \<and> getContentCatalog h d = ([], Inr None)"
    by (simp add: getActiveAntoraConfig_disabled createPlaybook_disabled
        getContentCatalog_def getContentCatalog_try_def)
  from getActiveAntoraConfig_returns[of h d] createPlaybook_not_disabled[of h d] t
    parseAntoraConfig_returns[of h d] getAttributes_not_disabled[of h d]
    getSrc_returns[of h d cat] resolveAntoraResourceIds_not_disabled[of ident cat src family]
    g dis n
  show ?thesis by (intro conjI)
qed

theorem AntoraDisabledError_never_thrown_witness:
  "getActiveAntoraConfig (sample_host (JBool True) (JBool False)) index_page = ([], Inr None)
   \<and> createPlaybook (sample_host (JBool True) (JBool False)) index_page = ([], Inr None)
   \<and> getContentCatalog (sample_host (JBool True) (JBool False)) index_page = ([], Inr None)
   \<and> snd (getContentCatalog_try failing_host index_page) = Inl (External ''ENOENT'')"
proof -
  have f: "aggregateContent failing_host sample_playbook = Inl ''ENOENT''"
    by (simp add: failing_host_def)
  have a: "snd (getContentCatalog_try failing_host index_page) = Inl (External ''ENOENT'')"
    by (simp add: getContentCatalog_try_def failing_createPlaybook f and_then_def
        from_library_def)
  have off: "\<not> (antoraSupportSetting (sample_host (JBool True) (JBool False)) = JBool True
            \<and> enableAntoraSupport (sample_host (JBool True) (JBool False)) = JBool True)"
    by (simp add: sample_host_def)
  show ?thesis
    using a off
      AntoraDisabledError_never_thrown[of "sample_host (JBool True) (JBool False)" index_page]
    by blast
qed

subsection \<open>Decisions of the opt-in gate\<close>

lemma sample_events:
  "antoraConfigExists (found yes_event) (document yes_event)"
  "antoraConfigExists (found no_event) (document no_event)"
  "\<not> antoraConfigExists (found readme_event) (document readme_event)"
  by (simp_all add: antoraConfigExists_def yes_event_def no_event_def readme_event_def
      readme_no_config sample_getAntoraConfig)

lemma sample_replies: "reply yes_event = Yes" "reply no_event = NoThanks"
  by (simp_all add: yes_event_def no_event_def)

lemma run_Nil: "run s [] = s"
  by (simp add: run_def)

lemma run_Cons: "run s (a # acts) = run (perform s a) acts"
  by (simp add: run_def)

lemma run_append: "run s (xs @ ys) = run (run s xs) ys"
  by (simp add: run_def)

lemma construct_undecided:
  "construct JUndefined setting
   = \<lparr>workspaceState = JUndefined, workspaceConfiguration = setting, listening = True,
      completionProviders = 0, promptsShown = 0, tasks = []\<rparr>"
  by (simp add: construct_def)

lemma perform_quiescent:
  assumes "\<not> listening s" and "list_all (\<lambda>t. t = Finished) (tasks s)"
  shows "perform s a = s"
proof (cases a)
  case (Opened ev)
  then show ?thesis using assms(1) by (simp add: onDidOpenTextDocument_def)
next
  case (Resumed i)
  show ?thesis
  proof (cases "i < length (tasks s)")
    case True
    then have "tasks s ! i = Finished" using assms(2) by (simp add: list_all_length)
    moreover from this have "(tasks s)[i := Finished] = tasks s"
      using list_update_id[of "tasks s" i] by simp
    ultimately show ?thesis using Resumed True by (simp add: resume_def)
  next
    case False
    then show ?thesis using Resumed by (simp add: resume_def)
  qed
qed

lemma run_quiescent:
  "\<not> listening s \<Longrightarrow> list_all (\<lambda>t. t = Finished) (tasks s) \<Longrightarrow> run s acts = s"
  by (induction acts) (simp_all add: run_Nil run_Cons perform_quiescent)

lemma serial_decision:
  assumes "antoraConfigExists (found ev) (document ev)"
  shows "run (construct JUndefined setting) [Opened ev, Resumed 0, Resumed 0, Resumed 0, Resumed 0]
         = \<lparr>workspaceState = JBool True,
            workspaceConfiguration =
              (case reply ev of Yes \<Rightarrow> JBool True | NoThanks \<Rightarrow> JBool False
               | Dismissed \<Rightarrow> JUndefined),
            listening = False,
            completionProviders = (if reply ev = Yes then 1 else 0),
            promptsShown = 1,
            tasks = [Finished]\<rparr>"
  using assms
  by (cases "reply ev")
     (simp_all add: run_def construct_undecided onDidOpenTextDocument_def resume_def
        activate_def)

lemma serial_decision_final:
  assumes "antoraConfigExists (found ev) (document ev)"
  shows "run (construct JUndefined setting)
           ([Opened ev, Resumed 0, Resumed 0, Resumed 0, Resumed 0] @ acts)
         = run (construct JUndefined setting)
             [Opened ev, Resumed 0, Resumed 0, Resumed 0, Resumed 0]"
  unfolding run_append[of _ "[Opened ev, Resumed 0, Resumed 0, Resumed 0, Resumed 0]" acts]
  by (rule run_quiescent) (simp_all add: serial_decision[OF assms])

text \<open>
  Claim C7 does not hold of the listener.  The listener is disposed at the end of the
  handler (line 46), after four \<open>await\<close>s, so a document opened while a handler is
  suspended starts a second handler.  In \<open>two_prompts\<close> both questions are on the
  screen; the user answers \<open>Yes\<close> to the first and \<open>No, thanks\<close> to the second: the
  question has been shown twice, one provider is registered, and the setting ends as
  \<open>false\<close>, so the check of \<open>getActiveAntoraConfig\<close> reports support as disabled.  In
  \<open>prompt_after_yes\<close> the second document is opened while the first handler waits for
  the store of the flag: when the first handler has finished (\<open>until_disposed\<close>) one
  question has been shown and the listener is disposed, and the second question is
  shown after that.  (When no document is opened while a handler is suspended, the
  session ends as the claim says: \<open>serial_decision\<close>, \<open>serial_decision_final\<close>.)
\<close>

theorem overlapping_handlers_ask_twice:
  "run (construct JUndefined JUndefined) two_prompts
     = \<lparr>workspaceState = JBool True, workspaceConfiguration = JBool False,
        listening = False, completionProviders = 1, promptsShown = 2,
        tasks = [Finished, Finished]\<rparr>
   \<and> run (construct JUndefined JUndefined) until_disposed
     = \<lparr>workspaceState = JBool True, workspaceConfiguration = JBool True,
        listening = False, completionProviders = 1, promptsShown = 1,
        tasks = [Finished, AwaitConfigExists no_event]\<rparr>
   \<and> run (construct JUndefined JUndefined) prompt_after_yes
     = \<lparr>workspaceState = JBool True, workspaceConfiguration = JBool False,
        listening = False, completionProviders = 1, promptsShown = 2,
        tasks = [Finished, Finished]\<rparr>
   \<and> getActiveAntoraConfig
         (sample_host (workspaceState (run (construct JUndefined JUndefined) two_prompts))
            (workspaceConfiguration (run (construct JUndefined JUndefined) two_prompts)))
         index_page
     = ([], Inr None)"
proof -
  have a: "run (construct JUndefined JUndefined) two_prompts
     = \<lparr>workspaceState = JBool True, workspaceConfiguration = JBool False,
        listening = False, completionProviders = 1, promptsShown = 2,
        tasks = [Finished, Finished]\<rparr>"
    by (simp add: run_def two_prompts_def construct_undecided onDidOpenTextDocument_def
        resume_def activate_def sample_events sample_replies Let_def)
  have b: "run (construct JUndefined JUndefined) until_disposed
     = \<lparr>workspaceState = JBool True, workspaceConfiguration = JBool True,
        listening = False, completionProviders = 1, promptsShown = 1,
        tasks = [Finished, AwaitConfigExists no_event]\<rparr>"
    by (simp add: run_def until_disposed_def construct_undecided onDidOpenTextDocument_def
        resume_def activate_def sample_events sample_replies Let_def)
  have c: "run (construct JUndefined JUndefined) prompt_after_yes
     = \<lparr>workspaceState = JBool True, workspaceConfiguration = JBool False,
        listening = False, completionProviders = 1, promptsShown = 2,
        tasks = [Finished, Finished]\<rparr>"
    unfolding prompt_after_yes_def run_append b
    by (simp add: run_def resume_def activate_def sample_events sample_replies Let_def)
  have d: "getActiveAntoraConfig (sample_host (JBool True) (JBool False)) index_page
           = ([], Inr None)"
    by (simp add: getActiveAntoraConfig_def sample_host_def)
  show ?thesis unfolding a using a b c d by simp
qed

end
